theory Spec2Isabelle
  imports Main "HOL-Library.Multiset"
begin

section \<open>Data model\<close>

text \<open>
  A row of the todo table, as the item route reads and returns it
  (\<^verbatim>\<open>todo.userId\<close> in the route, the \<^verbatim>\<open>Todo\<close> interface of the context for the
  other fields). The field \<^verbatim>\<open>id\<close> is written \<open>todo_id\<close>. Timestamps are instants of a
  discrete clock.
\<close>

record todo =
  todo_id :: string
  title :: string
  description :: "string option"
  completed :: bool
  userId :: string
  createdAt :: nat
  updatedAt :: nat

text \<open>
  The table: its rows, in storage order. The id is the key of the table, so a well-formed
  table has no two rows with one id; the operations below read the first row with an id
  and write or delete every row with it, which is the same on such a table.
\<close>

type_synonym db = "todo list"

text \<open>Exceptions of the JavaScript runtime and of the persistence client.\<close>

datatype exn =
    Error string
  | TypeError string
  | SyntaxError string
  | PrismaValidationError string
  | PrismaRecordNotFound

text \<open>
  JSON as the routes see it: the body is a scalar or an object whose members are scalars.
  Arrays and nested objects are left out. A member that is absent reads as
  \<^verbatim>\<open>undefined\<close>, here \<open>None\<close>.
\<close>

datatype jsval = JNull | JBool bool | JNum int | JStr string

datatype json = Scalar jsval | Object "(string \<times> jsval) list"

text \<open>The result of \<^verbatim>\<open>getServerSession\<close>: a session or null, its user possibly absent.\<close>

record user =
  uid :: string

record session =
  user :: "user option"

text \<open>What \<^verbatim>\<open>NextResponse.json(body, {status})\<close> answers.\<close>

datatype resp_body =
    TodoJson todo
  | TodosJson "todo list"
  | ErrorJson string
  | MessageJson string

record response =
  status :: nat
  body :: resp_body

definition json_response :: "resp_body \<Rightarrow> nat \<Rightarrow> response" where
  "json_response b st = \<lparr>status = st, body = b\<rparr>"

section \<open>The persistence client\<close>

text \<open>\<^verbatim>\<open>prisma.todo.findUnique({where: {id}})\<close>: the row with this id, or null.\<close>

definition findUnique :: "db \<Rightarrow> string \<Rightarrow> todo option" where
  "findUnique d i = find (\<lambda>t. todo_id t = i) d"

text \<open>
  One member of the \<^verbatim>\<open>data\<close> object of an update. The client validates the value
  against the column's type and throws on a mismatch; the column types are those of the
  \<^verbatim>\<open>Todo\<close> interface (\<^verbatim>\<open>title: string\<close>, \<^verbatim>\<open>description: string | null\<close>,
  \<^verbatim>\<open>completed: boolean\<close>).
\<close>

fun set_field :: "todo \<Rightarrow> string \<times> jsval \<Rightarrow> exn + todo" where
  "set_field t (k, v) =
     (if k = ''title'' then
        (case v of JStr s \<Rightarrow> Inr (t\<lparr>title := s\<rparr>)
         | _ \<Rightarrow> Inl (PrismaValidationError ''title''))
      else if k = ''description'' then
        (case v of JStr s \<Rightarrow> Inr (t\<lparr>description := Some s\<rparr>)
         | JNull \<Rightarrow> Inr (t\<lparr>description := None\<rparr>)
         | _ \<Rightarrow> Inl (PrismaValidationError ''description''))
      else if k = ''completed'' then
        (case v of JBool b \<Rightarrow> Inr (t\<lparr>completed := b\<rparr>)
         | _ \<Rightarrow> Inl (PrismaValidationError ''completed''))
      else Inl (PrismaValidationError k))"

fun set_fields :: "todo \<Rightarrow> (string \<times> jsval) list \<Rightarrow> exn + todo" where
  "set_fields t [] = Inr t"
| "set_fields t (kv # kvs) =
     (case set_field t kv of Inl e \<Rightarrow> Inl e | Inr t' \<Rightarrow> set_fields t' kvs)"

text \<open>
  Modelled from the spec: the schema of the todo table is not among the sources, and the
  route never writes \<^verbatim>\<open>updatedAt\<close> itself. The spec's data model says that
  \<open>updatedAt\<close> is refreshed on every mutation, so an update that writes at least one
  column stamps the row with the time of the request. An update whose \<^verbatim>\<open>data\<close> is
  empty writes no column: it is no mutation and leaves the row, its \<open>updatedAt\<close>
  included, as it was.
\<close>

definition stamp_updatedAt :: "(string \<times> jsval) list \<Rightarrow> nat \<Rightarrow> todo \<Rightarrow> todo" where
  "stamp_updatedAt data now t = (if data = [] then t else t\<lparr>updatedAt := now\<rparr>)"

text \<open>
  \<^verbatim>\<open>prisma.todo.update({where: {id}, data})\<close>: throws when no row has the id or a value
  does not fit its column; otherwise writes the row and returns it.
\<close>

definition prisma_update ::
  "db \<Rightarrow> string \<Rightarrow> (string \<times> jsval) list \<Rightarrow> nat \<Rightarrow> exn + (todo \<times> db)" where
  "prisma_update d i data now =
     (case findUnique d i of
        None \<Rightarrow> Inl PrismaRecordNotFound
      | Some t \<Rightarrow>
          (case set_fields t data of
             Inl e \<Rightarrow> Inl e
           | Inr t' \<Rightarrow>
               (let t'' = stamp_updatedAt data now t'
                in Inr (t'', map (\<lambda>r. if todo_id r = i then t'' else r) d))))"

text \<open>\<^verbatim>\<open>prisma.todo.delete({where: {id}})\<close>: throws when no row has the id.\<close>

definition prisma_delete :: "db \<Rightarrow> string \<Rightarrow> exn + db" where
  "prisma_delete d i =
     (case findUnique d i of
        None \<Rightarrow> Inl PrismaRecordNotFound
      | Some t \<Rightarrow> Inr (filter (\<lambda>r. todo_id r \<noteq> i) d))"

section \<open>The item route: GET, PATCH and DELETE of one todo\<close>

text \<open>
  Each handler is a \<^verbatim>\<open>try\<close> block whose \<^verbatim>\<open>catch\<close> answers 500. The \<open>_try\<close>
  functions are the blocks: \<open>Inl\<close> is an exception thrown inside, by reading the body
  or by the persistence client refusing the data. A failure of the database itself (a lost
  connection) is outside the model; the session is the result of
  \<^verbatim>\<open>getServerSession\<close>, the id the route parameter, \<open>now\<close> the time of the request.
\<close>

definition GET_try :: "session option \<Rightarrow> string \<Rightarrow> db \<Rightarrow> exn + response" where
  "GET_try sess i d =
     (case sess of
        None \<Rightarrow> Inr (json_response (ErrorJson ''You must be signed in to view this todo'') 401)
      | Some s \<Rightarrow>
          (case user s of
             None \<Rightarrow>
               Inr (json_response (ErrorJson ''You must be signed in to view this todo'') 401)
           | Some u \<Rightarrow>
               (case findUnique d i of
                  None \<Rightarrow> Inr (json_response (ErrorJson ''Todo not found'') 404)
                | Some t \<Rightarrow>
                    if userId t \<noteq> uid u then
                      Inr (json_response
                        (ErrorJson ''You do not have permission to view this todo'') 403)
                    else Inr (json_response (TodoJson t) 200))))"

definition GET :: "session option \<Rightarrow> string \<Rightarrow> db \<Rightarrow> response" where
  "GET sess i d =
     (case GET_try sess i d of
        Inl e \<Rightarrow> json_response (ErrorJson ''Failed to fetch todo'') 500
      | Inr r \<Rightarrow> r)"

text \<open>
  \<^verbatim>\<open>const { title, description, completed } = await request.json()\<close>: a body that is
  not JSON makes \<^verbatim>\<open>request.json()\<close> reject; destructuring \<^verbatim>\<open>null\<close> throws; any other
  scalar has none of the three properties. In a parsed object the last of several equal
  keys counts.
\<close>

definition get_prop :: "(string \<times> jsval) list \<Rightarrow> string \<Rightarrow> jsval option" where
  "get_prop kvs k = map_of (rev kvs) k"

definition destructure ::
  "json option \<Rightarrow> exn + (jsval option \<times> jsval option \<times> jsval option)" where
  "destructure b =
     (case b of
        None \<Rightarrow> Inl (SyntaxError ''Unexpected end of JSON input'')
      | Some (Scalar JNull) \<Rightarrow> Inl (TypeError ''Cannot destructure property of null'')
      | Some (Scalar _) \<Rightarrow> Inr (None, None, None)
      | Some (Object kvs) \<Rightarrow>
          Inr (get_prop kvs ''title'', get_prop kvs ''description'', get_prop kvs ''completed''))"

text \<open>\<^verbatim>\<open>...(x !== undefined && { x })\<close>: the member is spread in when it is defined.\<close>

definition spread :: "string \<Rightarrow> jsval option \<Rightarrow> (string \<times> jsval) list" where
  "spread k v = (case v of None \<Rightarrow> [] | Some x \<Rightarrow> [(k, x)])"

definition PATCH_try ::
  "session option \<Rightarrow> string \<Rightarrow> json option \<Rightarrow> nat \<Rightarrow> db \<Rightarrow> exn + (response \<times> db)" where
  "PATCH_try sess i b now d =
     (case sess of
        None \<Rightarrow>
          Inr (json_response (ErrorJson ''You must be signed in to update a todo'') 401, d)
      | Some s \<Rightarrow>
          (case user s of
             None \<Rightarrow>
               Inr (json_response (ErrorJson ''You must be signed in to update a todo'') 401, d)
           | Some u \<Rightarrow>
               (case findUnique d i of
                  None \<Rightarrow> Inr (json_response (ErrorJson ''Todo not found'') 404, d)
                | Some existingTodo \<Rightarrow>
                    if userId existingTodo \<noteq> uid u then
                      Inr (json_response
                        (ErrorJson ''You do not have permission to update this todo'') 403, d)
                    else
                      (case destructure b of
                         Inl e \<Rightarrow> Inl e
                       | Inr (ti, de, co) \<Rightarrow>
                           (case prisma_update d i
                                   (spread ''title'' ti @ spread ''description'' de
                                     @ spread ''completed'' co) now of
                              Inl e \<Rightarrow> Inl e
                            | Inr (updatedTodo, d') \<Rightarrow>
                                Inr (json_response (TodoJson updatedTodo) 200, d'))))))"

definition PATCH ::
  "session option \<Rightarrow> string \<Rightarrow> json option \<Rightarrow> nat \<Rightarrow> db \<Rightarrow> response \<times> db" where
  "PATCH sess i b now d =
     (case PATCH_try sess i b now d of
        Inl e \<Rightarrow> (json_response (ErrorJson ''Failed to update todo'') 500, d)
      | Inr r \<Rightarrow> r)"

definition DELETE_try :: "session option \<Rightarrow> string \<Rightarrow> db \<Rightarrow> exn + (response \<times> db)" where
  "DELETE_try sess i d =
     (case sess of
        None \<Rightarrow>
          Inr (json_response (ErrorJson ''You must be signed in to delete a todo'') 401, d)
      | Some s \<Rightarrow>
          (case user s of
             None \<Rightarrow>
               Inr (json_response (ErrorJson ''You must be signed in to delete a todo'') 401, d)
           | Some u \<Rightarrow>
               (case findUnique d i of
                  None \<Rightarrow> Inr (json_response (ErrorJson ''Todo not found'') 404, d)
                | Some existingTodo \<Rightarrow>
                    if userId existingTodo \<noteq> uid u then
                      Inr (json_response
                        (ErrorJson ''You do not have permission to delete this todo'') 403, d)
                    else
                      (case prisma_delete d i of
                         Inl e \<Rightarrow> Inl e
                       | Inr d' \<Rightarrow>
                           Inr (json_response
                             (MessageJson ''Todo deleted successfully'') 200, d')))))"

definition DELETE :: "session option \<Rightarrow> string \<Rightarrow> db \<Rightarrow> response \<times> db" where
  "DELETE sess i d =
     (case DELETE_try sess i d of
        Inl e \<Rightarrow> (json_response (ErrorJson ''Failed to delete todo'') 500, d)
      | Inr r \<Rightarrow> r)"

text \<open>
  A request to the item route, and a trace of such requests served one after the other,
  each on the table its predecessor left.
\<close>

datatype item_request =
    GetReq "session option" string
  | PatchReq "session option" string "json option" nat
  | DeleteReq "session option" string

fun serve :: "item_request \<Rightarrow> db \<Rightarrow> response \<times> db" where
  "serve (GetReq sess i) d = (GET sess i d, d)"
| "serve (PatchReq sess i b now) d = PATCH sess i b now d"
| "serve (DeleteReq sess i) d = DELETE sess i d"

fun serve_all :: "item_request list \<Rightarrow> db \<Rightarrow> db" where
  "serve_all [] d = d"
| "serve_all (r # rs) d = serve_all rs (snd (serve r d))"

section \<open>The todo context: the client's list and its operations\<close>

text \<open>
  The state of \<^verbatim>\<open>TodoProvider\<close>. It starts as \<open>initial_state\<close>
  (\<^verbatim>\<open>useState([])\<close>, \<^verbatim>\<open>useState(true)\<close>, \<^verbatim>\<open>useState(null)\<close>).
\<close>

record provider_state =
  todos :: "todo list"
  loading :: bool
  error :: "string option"

definition initial_state :: provider_state where
  "initial_state = \<lparr>todos = [], loading = True, error = None\<rparr>"

text \<open>
  What \<^verbatim>\<open>fetch\<close> is called with, and what it gives: a rejection (\<open>Inl\<close>, a network
  failure) or a response, of which the operations read \<^verbatim>\<open>ok\<close> and
  \<^verbatim>\<open>await response.json()\<close> (which rejects when the body is not JSON). The network
  and the server behind it are a state \<open>'w\<close> that every call of \<^verbatim>\<open>fetch\<close> reads and
  changes.
\<close>

record request =
  req_url :: string
  req_method :: string
  req_headers :: "(string \<times> string) list"
  req_body :: "json option"

record 'a http_response =
  ok :: bool
  json :: "exn + 'a"

type_synonym 'a fetch_result = "exn + 'a http_response"

type_synonym ('w, 'a) fetch = "request \<Rightarrow> 'w \<Rightarrow> 'a fetch_result \<times> 'w"

text \<open>
  \<^verbatim>\<open>if (!response.ok) throw new Error(msg); ... await response.json()\<close>, after an
  \<^verbatim>\<open>await fetch(...)\<close> that may itself have rejected.
\<close>

definition ok_json :: "string \<Rightarrow> 'a fetch_result \<Rightarrow> exn + 'a" where
  "ok_json msg res =
     (case res of
        Inl e \<Rightarrow> Inl e
      | Inr response \<Rightarrow> if \<not> ok response then Inl (Error msg) else json response)"

definition fetchTodos_request :: request where
  "fetchTodos_request =
     \<lparr>req_url = ''/api/todos'', req_method = ''GET'', req_headers = [], req_body = None\<rparr>"

definition fetchTodos ::
  "('w, todo list) fetch \<Rightarrow> provider_state \<Rightarrow> 'w \<Rightarrow> provider_state \<times> 'w" where
  "fetchTodos fetch s w =
     (let s1 = s\<lparr>loading := True\<rparr> in
      case fetch fetchTodos_request w of
        (res, w') \<Rightarrow>
          (case ok_json ''Failed to fetch todos'' res of
             Inr data \<Rightarrow> (s1\<lparr>todos := data, error := None, loading := False\<rparr>, w')
           | Inl err \<Rightarrow>
               (s1\<lparr>error := Some ''Failed to load todos. Please try again later.'',
                   loading := False\<rparr>, w')))"

text \<open>
  The mutations return the new state, how the call ended (\<open>Inr ()\<close> when the promise
  resolves, \<open>Inl err\<close> when \<^verbatim>\<open>throw err\<close> re-raises what the \<^verbatim>\<open>catch\<close> caught) and
  the network after the call. Their object arguments are given as the members
  \<^verbatim>\<open>JSON.stringify\<close> writes.
\<close>

definition addTodo_request :: "(string \<times> jsval) list \<Rightarrow> request" where
  "addTodo_request todoData =
     \<lparr>req_url = ''/api/todos'', req_method = ''POST'',
      req_headers = [(''Content-Type'', ''application/json'')],
      req_body = Some (Object todoData)\<rparr>"

definition addTodo ::
  "('w, todo) fetch \<Rightarrow> (string \<times> jsval) list \<Rightarrow> provider_state \<Rightarrow> 'w
     \<Rightarrow> provider_state \<times> (exn + unit) \<times> 'w" where
  "addTodo fetch todoData s w =
     (case fetch (addTodo_request todoData) w of
        (res, w') \<Rightarrow>
          (case ok_json ''Failed to create todo'' res of
             Inr newTodo \<Rightarrow> (s\<lparr>todos := newTodo # todos s, error := None\<rparr>, Inr (), w')
           | Inl err \<Rightarrow>
               (s\<lparr>error := Some ''Failed to create todo. Please try again.''\<rparr>, Inl err, w')))"

definition updateTodo_request :: "string \<Rightarrow> (string \<times> jsval) list \<Rightarrow> request" where
  "updateTodo_request i updates =
     \<lparr>req_url = ''/api/todos/'' @ i, req_method = ''PATCH'',
      req_headers = [(''Content-Type'', ''application/json'')],
      req_body = Some (Object updates)\<rparr>"

definition updateTodo ::
  "('w, todo) fetch \<Rightarrow> string \<Rightarrow> (string \<times> jsval) list \<Rightarrow> provider_state \<Rightarrow> 'w
     \<Rightarrow> provider_state \<times> (exn + unit) \<times> 'w" where
  "updateTodo fetch i updates s w =
     (case fetch (updateTodo_request i updates) w of
        (res, w') \<Rightarrow>
          (case ok_json ''Failed to update todo'' res of
             Inr updatedTodo \<Rightarrow>
               (s\<lparr>todos :=
                    map (\<lambda>todo. if todo_id todo = i then updatedTodo else todo) (todos s),
                  error := None\<rparr>, Inr (), w')
           | Inl err \<Rightarrow>
               (s\<lparr>error := Some ''Failed to update todo. Please try again.''\<rparr>, Inl err, w')))"

definition deleteTodo_request :: "string \<Rightarrow> request" where
  "deleteTodo_request i =
     \<lparr>req_url = ''/api/todos/'' @ i, req_method = ''DELETE'', req_headers = [],
      req_body = None\<rparr>"

definition deleteTodo ::
  "('w, 'a) fetch \<Rightarrow> string \<Rightarrow> provider_state \<Rightarrow> 'w
     \<Rightarrow> provider_state \<times> (exn + unit) \<times> 'w" where
  "deleteTodo fetch i s w =
     (case fetch (deleteTodo_request i) w of
        (res, w') \<Rightarrow>
          (case (case res of
                   Inl e \<Rightarrow> Inl e
                 | Inr response \<Rightarrow>
                     if \<not> ok response then Inl (Error ''Failed to delete todo'')
                     else Inr ()) of
             Inr u \<Rightarrow>
               (s\<lparr>todos := filter (\<lambda>todo. todo_id todo \<noteq> i) (todos s), error := None\<rparr>,
                Inr (), w')
           | Inl err \<Rightarrow>
               (s\<lparr>error := Some ''Failed to delete todo. Please try again.''\<rparr>, Inl err, w')))"

definition toggleComplete_request :: "string \<Rightarrow> bool \<Rightarrow> request" where
  "toggleComplete_request i c =
     \<lparr>req_url = ''/api/todos/'' @ i, req_method = ''PATCH'',
      req_headers = [(''Content-Type'', ''application/json'')],
      req_body = Some (Object [(''completed'', JBool (\<not> c))])\<rparr>"

definition toggleComplete ::
  "('w, todo) fetch \<Rightarrow> string \<Rightarrow> bool \<Rightarrow> provider_state \<Rightarrow> 'w
     \<Rightarrow> provider_state \<times> (exn + unit) \<times> 'w" where
  "toggleComplete fetch i c s w =
     (case fetch (toggleComplete_request i c) w of
        (res, w') \<Rightarrow>
          (case ok_json ''Failed to update todo'' res of
             Inr updatedTodo \<Rightarrow>
               (s\<lparr>todos :=
                    map (\<lambda>todo. if todo_id todo = i then updatedTodo else todo) (todos s),
                  error := None\<rparr>, Inr (), w')
           | Inl err \<Rightarrow>
               (s\<lparr>error := Some ''Failed to update todo. Please try again.''\<rparr>, Inl err, w')))"

definition refreshTodos ::
  "('w, todo list) fetch \<Rightarrow> provider_state \<Rightarrow> 'w \<Rightarrow> provider_state \<times> 'w" where
  "refreshTodos fetch s w = fetchTodos fetch s w"

text \<open>
  A network that records the requests it is given: \<open>logged fetch\<close> behaves as
  \<open>fetch\<close> and appends each request to a log kept beside the network's state.
\<close>

definition logged :: "('w, 'a) fetch \<Rightarrow> ('w \<times> request list, 'a) fetch" where
  "logged fetch req wl =
     (case fetch req (fst wl) of (res, w') \<Rightarrow> (res, (w', snd wl @ [req])))"

section \<open>The components: the edit form of an item and the form for a new todo\<close>

text \<open>
  \<^verbatim>\<open>String.prototype.trim\<close> removes the white space and the line terminators of
  ECMAScript from both ends. A string is taken as its UTF-8 bytes, so these characters are
  sequences of one, two or three bytes: tab, line feed, vertical tab, form feed, carriage
  return and space; the no-break space U+00A0; and U+1680, U+2000 to U+200A, the line and
  paragraph separators U+2028 and U+2029, U+202F, U+205F, U+3000 and the byte order mark
  U+FEFF.
\<close>

definition is_space :: "char \<Rightarrow> bool" where
  "is_space c = (c \<in> set [CHR '' '', CHR 0x09, CHR 0x0A, CHR 0x0B, CHR 0x0C, CHR 0x0D])"

definition is_space2 :: "char \<Rightarrow> char \<Rightarrow> bool" where
  "is_space2 a b = (a = CHR 0xC2 \<and> b = CHR 0xA0)"

definition is_space3 :: "char \<Rightarrow> char \<Rightarrow> char \<Rightarrow> bool" where
  "is_space3 a b c =
     ((a = CHR 0xE1 \<and> b = CHR 0x9A \<and> c = CHR 0x80) \<or>
      (a = CHR 0xE2 \<and> b = CHR 0x80 \<and>
         c \<in> set [CHR 0x80, CHR 0x81, CHR 0x82, CHR 0x83, CHR 0x84, CHR 0x85, CHR 0x86,
                   CHR 0x87, CHR 0x88, CHR 0x89, CHR 0x8A, CHR 0xA8, CHR 0xA9, CHR 0xAF]) \<or>
      (a = CHR 0xE2 \<and> b = CHR 0x81 \<and> c = CHR 0x9F) \<or>
      (a = CHR 0xE3 \<and> b = CHR 0x80 \<and> c = CHR 0x80) \<or>
      (a = CHR 0xEF \<and> b = CHR 0xBB \<and> c = CHR 0xBF))"

text \<open>White space is dropped from the front as long as the string starts with some.\<close>

fun trim_start :: "string \<Rightarrow> string" where
  "trim_start (a # b # c # s) =
     (if is_space a then trim_start (b # c # s)
      else if is_space2 a b then trim_start (c # s)
      else if is_space3 a b c then trim_start s
      else a # b # c # s)"
| "trim_start [a, b] =
     (if is_space a then trim_start [b] else if is_space2 a b then [] else [a, b])"
| "trim_start [a] = (if is_space a then [] else [a])"
| "trim_start [] = []"

text \<open>The same from the end, on the reversed string: its head is the last byte.\<close>

fun trim_end_rev :: "string \<Rightarrow> string" where
  "trim_end_rev (c # b # a # s) =
     (if is_space c then trim_end_rev (b # a # s)
      else if is_space2 b c then trim_end_rev (a # s)
      else if is_space3 a b c then trim_end_rev s
      else c # b # a # s)"
| "trim_end_rev [c, b] =
     (if is_space c then trim_end_rev [b] else if is_space2 b c then [] else [c, b])"
| "trim_end_rev [c] = (if is_space c then [] else [c])"
| "trim_end_rev [] = []"

definition trim :: "string \<Rightarrow> string" where
  "trim s = rev (trim_end_rev (rev (trim_start s)))"

text \<open>
  The local state of \<^verbatim>\<open>TodoItem\<close> (its \<^verbatim>\<open>error\<close> is written \<open>item_error\<close>) and
  its \<^verbatim>\<open>handleSave\<close>, which returns the item's state, the provider's state and the
  network. \<^verbatim>\<open>!editedTitle.trim()\<close> holds when the trimmed title is empty;
  \<^verbatim>\<open>editedDescription.trim() || null\<close> is null when the trimmed description is empty.
\<close>

record item_state =
  isEditing :: bool
  editedTitle :: string
  editedDescription :: string
  isSubmitting :: bool
  item_error :: "string option"

definition handleSave ::
  "('w, todo) fetch \<Rightarrow> todo \<Rightarrow> item_state \<Rightarrow> provider_state \<Rightarrow> 'w
     \<Rightarrow> item_state \<times> provider_state \<times> 'w" where
  "handleSave fetch todo st s w =
     (if trim (editedTitle st) = [] then
        (st\<lparr>item_error := Some ''Title cannot be empty''\<rparr>, s, w)
      else
        (let st1 = st\<lparr>isSubmitting := True, item_error := None\<rparr> in
         case updateTodo fetch (todo_id todo)
                [(''title'', JStr (trim (editedTitle st))),
                 (''description'',
                    if trim (editedDescription st) = [] then JNull
                    else JStr (trim (editedDescription st)))] s w of
           (s', Inr u, w') \<Rightarrow> (st1\<lparr>isEditing := False, isSubmitting := False\<rparr>, s', w')
         | (s', Inl err, w') \<Rightarrow>
             (st1\<lparr>item_error := Some ''Failed to update todo. Please try again.'',
                  isSubmitting := False\<rparr>, s', w')))"

text \<open>
  The local state of \<^verbatim>\<open>TodoForm\<close> and its \<^verbatim>\<open>handleSubmit\<close>. The timer that clears
  the success message after three seconds is left out.
\<close>

record form_state =
  form_title :: string
  form_description :: string
  form_isSubmitting :: bool
  form_error :: "string option"
  form_success :: "string option"

definition handleSubmit ::
  "('w, todo) fetch \<Rightarrow> form_state \<Rightarrow> provider_state \<Rightarrow> 'w
     \<Rightarrow> form_state \<times> provider_state \<times> 'w" where
  "handleSubmit fetch st s w =
     (if trim (form_title st) = [] then
        (st\<lparr>form_error := Some ''Title is required''\<rparr>, s, w)
      else
        (let st1 = st\<lparr>form_isSubmitting := True, form_error := None\<rparr> in
         case addTodo fetch
                [(''title'', JStr (trim (form_title st))),
                 (''description'',
                    if trim (form_description st) = [] then JNull
                    else JStr (trim (form_description st))),
                 (''completed'', JBool False)] s w of
           (s', Inr u, w') \<Rightarrow>
             (st1\<lparr>form_title := [], form_description := [],
                  form_success := Some ''Todo added successfully!'',
                  form_isSubmitting := False\<rparr>, s', w')
         | (s', Inl err, w') \<Rightarrow>
             (st1\<lparr>form_error := Some ''Failed to create todo. Please try again.'',
                  form_isSubmitting := False\<rparr>, s', w')))"

section \<open>The collection route: List and Create\<close>

text \<open>
  Modelled from the spec: the route of \<^verbatim>\<open>/api/todos\<close> (the List and Create
  operations of the Store) is not among the sources. The spec says of Create that it
  accepts \<^verbatim>\<open>{title, description?, completed?}\<close>, rejects with ValidationError (HTTP 400)
  a title that is missing, empty or only white space and a malformed payload, persisting
  nothing, and otherwise assigns the id, the owner (the user of the session) and the
  timestamps, \<open>completed\<close> being false unless given, and returns the created record;
  without a valid session it answers 401. The id comes from the persistence backend's
  generator and is a parameter here. The new row is put in front of the table.
\<close>

definition create_fields :: "json option \<Rightarrow> (string \<times> string option \<times> bool) option" where
  "create_fields b =
     (case b of
        Some (Object kvs) \<Rightarrow>
          (case get_prop kvs ''title'' of
             Some (JStr ti) \<Rightarrow>
               if trim ti = [] then None
               else
                 (case get_prop kvs ''description'' of
                    Some (JNum n) \<Rightarrow> None
                  | Some (JBool x) \<Rightarrow> None
                  | de \<Rightarrow>
                      (case get_prop kvs ''completed'' of
                         None \<Rightarrow>
                           Some (ti, (case de of Some (JStr x) \<Rightarrow> Some x | _ \<Rightarrow> None), False)
                       | Some (JBool c) \<Rightarrow>
                           Some (ti, (case de of Some (JStr x) \<Rightarrow> Some x | _ \<Rightarrow> None), c)
                       | _ \<Rightarrow> None))
           | _ \<Rightarrow> None)
      | _ \<Rightarrow> None)"

definition POST_todos ::
  "session option \<Rightarrow> json option \<Rightarrow> string \<Rightarrow> nat \<Rightarrow> db \<Rightarrow> response \<times> db" where
  "POST_todos sess b new_id now d =
     (case sess of
        None \<Rightarrow> (json_response (ErrorJson ''Unauthorized'') 401, d)
      | Some s \<Rightarrow>
          (case user s of
             None \<Rightarrow> (json_response (ErrorJson ''Unauthorized'') 401, d)
           | Some u \<Rightarrow>
               (case create_fields b of
                  None \<Rightarrow> (json_response (ErrorJson ''ValidationError'') 400, d)
                | Some (ti, de, co) \<Rightarrow>
                    (let t = \<lparr>todo_id = new_id, title = ti, description = de, completed = co,
                              userId = uid u, createdAt = now, updatedAt = now\<rparr>
                     in (json_response (TodoJson t) 201, t # d)))))"

text \<open>
  Modelled from the spec: List, of the same absent route, returns all todos owned by the
  requesting identity, ordered by recency, the newest first, and answers 401 without a
  valid session. Recency is the time of creation; of two rows created at the same instant
  the one stored later comes first.
\<close>

definition newest_first :: "todo list \<Rightarrow> todo list" where
  "newest_first ts = sort_key (\<lambda>t. - int (createdAt t)) ts"

definition GET_todos :: "session option \<Rightarrow> db \<Rightarrow> response" where
  "GET_todos sess d =
     (case sess of
        None \<Rightarrow> json_response (ErrorJson ''Unauthorized'') 401
      | Some s \<Rightarrow>
          (case user s of
             None \<Rightarrow> json_response (ErrorJson ''Unauthorized'') 401
           | Some u \<Rightarrow>
               json_response (TodosJson (newest_first (filter (\<lambda>t. userId t = uid u) d))) 200))"

section \<open>Properties of the item route\<close>

lemma findUnique_None_iff: "findUnique d i = None \<longleftrightarrow> (\<forall>t\<in>set d. todo_id t \<noteq> i)"
  by (auto simp: findUnique_def find_None_iff)

lemma findUnique_Some_id: "findUnique d i = Some t \<Longrightarrow> todo_id t = i \<and> t \<in> set d"
  by (auto simp: findUnique_def find_Some_iff)

lemma findUnique_filter: "findUnique (filter (\<lambda>r. todo_id r \<noteq> i) d) i = None"
  by (simp add: findUnique_None_iff)

lemma findUnique_replace:
  "findUnique d i = Some t \<Longrightarrow> todo_id t' = i \<Longrightarrow>
   findUnique (map (\<lambda>r. if todo_id r = i then t' else r) d) i = Some t'"
  by (induction d) (auto simp: findUnique_def)

lemma findUnique_replace_other:
  "todo_id t' = i \<Longrightarrow> j \<noteq> i \<Longrightarrow>
   findUnique (map (\<lambda>r. if todo_id r = i then t' else r) d) j = findUnique d j"
  by (induction d) (auto simp: findUnique_def)

lemma set_field_id: "set_field t kv = Inr t' \<Longrightarrow> todo_id t' = todo_id t"
  by (cases kv) (auto split: if_splits jsval.splits)

lemma set_fields_id: "set_fields t kvs = Inr t' \<Longrightarrow> todo_id t' = todo_id t"
proof (induction kvs arbitrary: t)
  case Nil
  then show ?case by simp
next
  case (Cons kv kvs)
  then show ?case by (auto split: sum.splits dest: set_field_id)
qed

lemma set_fields_append:
  "set_fields t (xs @ ys) =
     (case set_fields t xs of Inl e \<Rightarrow> Inl e | Inr t' \<Rightarrow> set_fields t' ys)"
  by (induction xs arbitrary: t) (auto split: sum.splits)

lemma set_title:
  "set_fields t (spread ''title'' ti) = Inr t' \<longleftrightarrow>
     (ti = None \<and> t' = t) \<or> (\<exists>s. ti = Some (JStr s) \<and> t' = t\<lparr>title := s\<rparr>)"
  by (auto simp: spread_def split: option.splits jsval.splits)

lemma set_description:
  "set_fields t (spread ''description'' de) = Inr t' \<longleftrightarrow>
     (de = None \<and> t' = t) \<or> (de = Some JNull \<and> t' = t\<lparr>description := None\<rparr>) \<or>
     (\<exists>s. de = Some (JStr s) \<and> t' = t\<lparr>description := Some s\<rparr>)"
  by (auto simp: spread_def split: option.splits jsval.splits)

lemma set_completed:
  "set_fields t (spread ''completed'' co) = Inr t' \<longleftrightarrow>
     (co = None \<and> t' = t) \<or> (\<exists>b. co = Some (JBool b) \<and> t' = t\<lparr>completed := b\<rparr>)"
  by (auto simp: spread_def split: option.splits jsval.splits)

lemma GET_try_total: "\<exists>r. GET_try sess i d = Inr r"
  by (auto simp: GET_try_def split: option.splits)

lemma PATCH_keeps_absent:
  "findUnique d i = None \<Longrightarrow> findUnique (snd (PATCH sess j b now d)) i = None"
  by (auto simp: PATCH_def PATCH_try_def prisma_update_def stamp_updatedAt_def Let_def findUnique_None_iff
      split: option.splits sum.splits if_splits prod.splits
      dest!: findUnique_Some_id set_fields_id)

lemma DELETE_keeps_absent:
  "findUnique d i = None \<Longrightarrow> findUnique (snd (DELETE sess j d)) i = None"
  by (auto simp: DELETE_def DELETE_try_def prisma_delete_def findUnique_None_iff
      split: option.splits sum.splits if_splits)

lemma serve_keeps_absent:
  "findUnique d i = None \<Longrightarrow> findUnique (snd (serve r d)) i = None"
  by (cases r) (simp_all add: PATCH_keeps_absent DELETE_keeps_absent)

lemma serve_all_keeps_absent:
  "findUnique d i = None \<Longrightarrow> findUnique (serve_all rs d) i = None"
  by (induction rs arbitrary: d) (simp_all add: serve_keeps_absent)

lemma GET_absent:
  "user s = Some u \<Longrightarrow> findUnique d i = None \<Longrightarrow>
   GET (Some s) i d = json_response (ErrorJson ''Todo not found'') 404"
  by (simp add: GET_def GET_try_def)

lemma DELETE_ok_absent:
  "status (fst (DELETE sess i d)) = 200 \<Longrightarrow> findUnique (snd (DELETE sess i d)) i = None"
  by (auto simp: DELETE_def DELETE_try_def prisma_delete_def json_response_def findUnique_filter
      split: option.splits sum.splits if_splits)

text \<open>What a PATCH that answers 200 did.\<close>

lemma PATCH_200:
  assumes "PATCH sess i b now d = (r, d')" and "status r = 200"
  shows "\<exists>s u t ti de co t1 t2 t3.
           sess = Some s \<and> user s = Some u \<and> findUnique d i = Some t \<and> userId t = uid u \<and>
           destructure b = Inr (ti, de, co) \<and>
           set_fields t (spread ''title'' ti) = Inr t1 \<and>
           set_fields t1 (spread ''description'' de) = Inr t2 \<and>
           set_fields t2 (spread ''completed'' co) = Inr t3 \<and>
           r = json_response (TodoJson (stamp_updatedAt
                 (spread ''title'' ti @ spread ''description'' de @ spread ''completed'' co)
                 now t3)) 200 \<and>
           d' = map (\<lambda>r. if todo_id r = i
                      then stamp_updatedAt
                        (spread ''title'' ti @ spread ''description'' de
                          @ spread ''completed'' co) now t3
                      else r) d"
  using assms
  by (auto simp: PATCH_def PATCH_try_def prisma_update_def json_response_def Let_def
      set_fields_append
      split: option.splits sum.splits if_splits prod.splits)

lemma PATCH_owner:
  assumes "user s = Some u" and "findUnique d i = Some t" and "userId t = uid u"
    and "destructure b = Inr (ti, de, co)"
    and "set_fields t (spread ''title'' ti @ spread ''description'' de @ spread ''completed'' co)
           = Inr t'"
  shows "PATCH (Some s) i b now d =
     (json_response (TodoJson (stamp_updatedAt
          (spread ''title'' ti @ spread ''description'' de @ spread ''completed'' co)
          now t')) 200,
      map (\<lambda>r. if todo_id r = i
                 then stamp_updatedAt
                   (spread ''title'' ti @ spread ''description'' de @ spread ''completed'' co)
                   now t'
                 else r) d)"
  using assms by (simp add: PATCH_def PATCH_try_def prisma_update_def Let_def)

lemma destructure_toggle:
  "destructure (Some (Object [(''completed'', JBool x)])) = Inr (None, None, Some (JBool x))"
  by (simp add: destructure_def get_prop_def)

lemma PATCH_toggle:
  assumes "user s = Some u" and "findUnique d i = Some t" and "userId t = uid u"
  shows "PATCH (Some s) i (Some (Object [(''completed'', JBool x)])) now d =
     (json_response (TodoJson (t\<lparr>completed := x, updatedAt := now\<rparr>)) 200,
      map (\<lambda>r. if todo_id r = i then t\<lparr>completed := x, updatedAt := now\<rparr> else r) d)"
  using PATCH_owner [OF assms destructure_toggle, where t' = "t\<lparr>completed := x\<rparr>" and now = now]
  by (simp add: spread_def stamp_updatedAt_def)

lemma PATCH_toggle_200:
  assumes "PATCH sess i (Some (Object [(''completed'', JBool x)])) now d = (r, d')"
    and "status r = 200"
  shows "\<exists>t. findUnique d i = Some t \<and>
           r = json_response (TodoJson (t\<lparr>completed := x, updatedAt := now\<rparr>)) 200 \<and>
           d' = map (\<lambda>r. if todo_id r = i then t\<lparr>completed := x, updatedAt := now\<rparr> else r) d"
  using PATCH_200 [OF assms]
  by (auto simp: destructure_toggle set_title set_description set_completed spread_def
      stamp_updatedAt_def)

text \<open>The requests of this route keep a table well-formed: no id comes to stand twice.\<close>

lemma map_id_replace:
  "todo_id t' = i \<Longrightarrow> map todo_id (map (\<lambda>r. if todo_id r = i then t' else r) d) = map todo_id d"
  by (induction d) auto

lemma PATCH_keeps_ids:
  assumes dist: "distinct (map todo_id d)"
  shows "distinct (map todo_id (snd (PATCH sess i b now d)))"
proof (cases "status (fst (PATCH sess i b now d)) = 200")
  case True
  obtain r d' where p: "PATCH sess i b now d = (r, d')"
    by (cases "PATCH sess i b now d") auto
  with True have st: "status r = 200" by simp
  from PATCH_200 [OF p st] obtain t ti de co t1 t2 t3 where
    f: "findUnique d i = Some t"
    and s1: "set_fields t (spread ''title'' ti) = Inr t1"
    and s2: "set_fields t1 (spread ''description'' de) = Inr t2"
    and s3: "set_fields t2 (spread ''completed'' co) = Inr t3"
    and d': "d' = map (\<lambda>r. if todo_id r = i
                      then stamp_updatedAt
                        (spread ''title'' ti @ spread ''description'' de
                          @ spread ''completed'' co) now t3
                      else r) d"
    by blast
  have "todo_id (stamp_updatedAt
      (spread ''title'' ti @ spread ''description'' de @ spread ''completed'' co) now t3) = i"
    using findUnique_Some_id [OF f] set_fields_id [OF s1] set_fields_id [OF s2]
      set_fields_id [OF s3] by (simp add: stamp_updatedAt_def)
  then have "map todo_id d' = map todo_id d"
    unfolding d' by (rule map_id_replace)
  with dist p show ?thesis by simp
next
  case False
  then have "snd (PATCH sess i b now d) = d"
    by (auto simp: PATCH_def PATCH_try_def prisma_update_def stamp_updatedAt_def json_response_def Let_def
        split: option.splits sum.splits if_splits prod.splits)
  with dist show ?thesis by simp
qed

lemma DELETE_keeps_ids:
  "distinct (map todo_id d) \<Longrightarrow> distinct (map todo_id (snd (DELETE sess i d)))"
  by (auto simp: DELETE_def DELETE_try_def prisma_delete_def distinct_map_filter
      split: option.splits sum.splits if_splits)

lemma serve_all_keeps_ids:
  "distinct (map todo_id d) \<Longrightarrow> distinct (map todo_id (serve_all rs d))"
proof (induction rs arbitrary: d)
  case Nil
  then show ?case by simp
next
  case (Cons r rs)
  then show ?case by (cases r) (simp_all add: PATCH_keeps_ids DELETE_keeps_ids)
qed

text \<open>
  Claim C1. Under a valid session, GET, PATCH and DELETE of an id that no row has answer
  404 with the message \<^verbatim>\<open>Todo not found\<close> and leave the table as it is; of a row owned
  by another user they answer 403 with a permission message, so the two failures are told
  apart; and once a DELETE has answered 200, a GET of the same id under any valid session
  answers 404, also after any further requests to this route.
\<close>

theorem item_route_not_found_forbidden:
  assumes "user s = Some u"
  shows "(findUnique d i = None \<longrightarrow>
            GET (Some s) i d = json_response (ErrorJson ''Todo not found'') 404 \<and>
            PATCH (Some s) i b now d = (json_response (ErrorJson ''Todo not found'') 404, d) \<and>
            DELETE (Some s) i d = (json_response (ErrorJson ''Todo not found'') 404, d)) \<and>
         (\<forall>t. findUnique d i = Some t \<and> userId t \<noteq> uid u \<longrightarrow>
            GET (Some s) i d =
              json_response (ErrorJson ''You do not have permission to view this todo'') 403 \<and>
            PATCH (Some s) i b now d =
              (json_response (ErrorJson ''You do not have permission to update this todo'') 403, d) \<and>
            DELETE (Some s) i d =
              (json_response (ErrorJson ''You do not have permission to delete this todo'') 403, d)) \<and>
         (status (fst (DELETE (Some s) i d)) = 200 \<longrightarrow>
            (\<forall>rs s' u'. user s' = Some u' \<longrightarrow>
               GET (Some s') i (serve_all rs (snd (DELETE (Some s) i d))) =
                 json_response (ErrorJson ''Todo not found'') 404))"
proof (intro conjI impI allI)
  assume "findUnique d i = None"
  with assms show "GET (Some s) i d = json_response (ErrorJson ''Todo not found'') 404"
    by (simp add: GET_def GET_try_def)
  from assms \<open>findUnique d i = None\<close>
  show "PATCH (Some s) i b now d = (json_response (ErrorJson ''Todo not found'') 404, d)"
    by (simp add: PATCH_def PATCH_try_def)
  from assms \<open>findUnique d i = None\<close>
  show "DELETE (Some s) i d = (json_response (ErrorJson ''Todo not found'') 404, d)"
    by (simp add: DELETE_def DELETE_try_def)
next
  fix t assume h: "findUnique d i = Some t \<and> userId t \<noteq> uid u"
  with assms show "GET (Some s) i d =
      json_response (ErrorJson ''You do not have permission to view this todo'') 403"
    by (simp add: GET_def GET_try_def)
  from assms h show "PATCH (Some s) i b now d =
      (json_response (ErrorJson ''You do not have permission to update this todo'') 403, d)"
    by (simp add: PATCH_def PATCH_try_def)
  from assms h show "DELETE (Some s) i d =
      (json_response (ErrorJson ''You do not have permission to delete this todo'') 403, d)"
    by (simp add: DELETE_def DELETE_try_def)
next
  fix rs and s' :: session and u'
  assume ok: "status (fst (DELETE (Some s) i d)) = 200" and v: "user s' = Some u'"
  have "findUnique (serve_all rs (snd (DELETE (Some s) i d))) i = None"
    by (rule serve_all_keeps_absent) (rule DELETE_ok_absent [OF ok])
  with v show "GET (Some s') i (serve_all rs (snd (DELETE (Some s) i d))) =
      json_response (ErrorJson ''Todo not found'') 404"
    by (rule GET_absent)
qed

theorem item_route_not_found_forbidden_witness:
  "user \<lparr>user = Some \<lparr>uid = ''alice''\<rparr>\<rparr> = Some \<lparr>uid = ''alice''\<rparr> \<and>
   findUnique
     [\<lparr>todo_id = ''t1'', title = ''Buy milk'', description = None, completed = False,
       userId = ''alice'', createdAt = 1, updatedAt = 1\<rparr>] ''t2'' = None \<and>
   status (GET (Some \<lparr>user = Some \<lparr>uid = ''alice''\<rparr>\<rparr>) ''t2''
     [\<lparr>todo_id = ''t1'', title = ''Buy milk'', description = None, completed = False,
       userId = ''alice'', createdAt = 1, updatedAt = 1\<rparr>]) = 404 \<and>
   findUnique
     [\<lparr>todo_id = ''t1'', title = ''Buy milk'', description = None, completed = False,
       userId = ''alice'', createdAt = 1, updatedAt = 1\<rparr>] ''t1'' =
     Some \<lparr>todo_id = ''t1'', title = ''Buy milk'', description = None, completed = False,
       userId = ''alice'', createdAt = 1, updatedAt = 1\<rparr> \<and>
   ''alice'' \<noteq> uid \<lparr>uid = ''bob''\<rparr> \<and>
   status (fst (DELETE (Some \<lparr>user = Some \<lparr>uid = ''bob''\<rparr>\<rparr>) ''t1''
     [\<lparr>todo_id = ''t1'', title = ''Buy milk'', description = None, completed = False,
       userId = ''alice'', createdAt = 1, updatedAt = 1\<rparr>])) = 403 \<and>
   status (fst (DELETE (Some \<lparr>user = Some \<lparr>uid = ''alice''\<rparr>\<rparr>) ''t1''
     [\<lparr>todo_id = ''t1'', title = ''Buy milk'', description = None, completed = False,
       userId = ''alice'', createdAt = 1, updatedAt = 1\<rparr>])) = 200 \<and>
   status (GET (Some \<lparr>user = Some \<lparr>uid = ''alice''\<rparr>\<rparr>) ''t1''
     (serve_all [PatchReq (Some \<lparr>user = Some \<lparr>uid = ''alice''\<rparr>\<rparr>) ''t1''
                   (Some (Object [(''completed'', JBool True)])) 2]
       (snd (DELETE (Some \<lparr>user = Some \<lparr>uid = ''alice''\<rparr>\<rparr>) ''t1''
         [\<lparr>todo_id = ''t1'', title = ''Buy milk'', description = None, completed = False,
           userId = ''alice'', createdAt = 1, updatedAt = 1\<rparr>])))) = 404"
  using item_route_not_found_forbidden
    [of "\<lparr>user = Some \<lparr>uid = ''alice''\<rparr>\<rparr>" "\<lparr>uid = ''alice''\<rparr>"
      "[\<lparr>todo_id = ''t1'', title = ''Buy milk'', description = None, completed = False,
         userId = ''alice'', createdAt = 1, updatedAt = 1\<rparr>]" "''t2''" None 0]
    item_route_not_found_forbidden
    [of "\<lparr>user = Some \<lparr>uid = ''bob''\<rparr>\<rparr>" "\<lparr>uid = ''bob''\<rparr>"
      "[\<lparr>todo_id = ''t1'', title = ''Buy milk'', description = None, completed = False,
         userId = ''alice'', createdAt = 1, updatedAt = 1\<rparr>]" "''t1''" None 0]
    item_route_not_found_forbidden
    [of "\<lparr>user = Some \<lparr>uid = ''alice''\<rparr>\<rparr>" "\<lparr>uid = ''alice''\<rparr>"
      "[\<lparr>todo_id = ''t1'', title = ''Buy milk'', description = None, completed = False,
         userId = ''alice'', createdAt = 1, updatedAt = 1\<rparr>]" "''t1''" None 0]
  by (simp add: findUnique_def GET_def GET_try_def PATCH_def PATCH_try_def DELETE_def
      DELETE_try_def prisma_delete_def json_response_def)




text \<open>
  Claim C2. A title is never empty after a successful update: this fails on the route,
  which does not look at the title it is given. The owner's PATCH with an empty title, or
  with the blank title that \<open>updateTodo\<close> sends as it is, answers 200 and stores that
  title. Only the edit form checks the title before it calls \<open>updateTodo\<close>.
\<close>

theorem update_accepts_empty_title:
  "PATCH (Some \<lparr>user = Some \<lparr>uid = ''alice''\<rparr>\<rparr>) ''t1'' (Some
       (Object [(''title'', JStr '''')])) 9 [\<lparr>todo_id = ''t1'', title = ''Buy milk'',
       description = None, completed = False, userId = ''alice'', createdAt = 1, updatedAt =
       1\<rparr>] = (json_response (TodoJson \<lparr>todo_id = ''t1'', title = '''',
       description = None, completed = False, userId = ''alice'', createdAt = 1, updatedAt =
       9\<rparr>) 200, [\<lparr>todo_id = ''t1'', title = '''', description = None,
       completed = False, userId = ''alice'', createdAt = 1, updatedAt = 9\<rparr>]) \<and>
   PATCH (Some \<lparr>user = Some \<lparr>uid = ''alice''\<rparr>\<rparr>) ''t1'' (req_body
       (updateTodo_request ''t1'' [(''title'', JStr ''  '')])) 9 [\<lparr>todo_id = ''t1'',
       title = ''Buy milk'', description = None, completed = False, userId = ''alice'',
       createdAt = 1, updatedAt = 1\<rparr>] = (json_response (TodoJson \<lparr>todo_id =
       ''t1'', title = ''  '', description = None, completed = False, userId = ''alice'',
       createdAt = 1, updatedAt = 9\<rparr>) 200, [\<lparr>todo_id = ''t1'', title = ''  '',
       description = None, completed = False, userId = ''alice'', createdAt = 1, updatedAt =
       9\<rparr>])"
  by (simp add: PATCH_def PATCH_try_def prisma_update_def stamp_updatedAt_def findUnique_def destructure_def
      get_prop_def spread_def updateTodo_request_def json_response_def Let_def)

section \<open>Properties of the collection route\<close>

lemma newest_first_mset: "mset (newest_first ts) = mset ts"
  by (simp add: newest_first_def)

lemma newest_first_sorted:
  "sorted_wrt (\<lambda>a b. createdAt b \<le> createdAt a) (newest_first ts)"
proof -
  have "sorted (map (\<lambda>t. - int (createdAt t)) (newest_first ts))"
    unfolding newest_first_def by (rule sorted_sort_key)
  then show ?thesis by (simp add: sorted_wrt_map)
qed

lemma create_fields_title:
  "create_fields (Some (Object [(''title'', JStr ti)])) =
     (if trim ti = [] then None else Some (ti, None, False))"
  by (simp add: create_fields_def get_prop_def)

text \<open>
  Claim C5. Under a valid session List answers 200 with exactly the rows of the table
  owned by the caller, each as often as the table has it, in an order in which no row is
  older than one after it. After a Create of title A and then a Create of title B by the
  same user, who had no todos before, the second not earlier than the first, List returns
  B before A.
\<close>

theorem list_owned_newest_first:
  "(user s = Some u \<longrightarrow>
      (\<exists>ts. GET_todos (Some s) d = json_response (TodosJson ts) 200 \<and>
            mset ts = mset (filter (\<lambda>t. userId t = uid u) d) \<and>
            sorted_wrt (\<lambda>a b. createdAt b \<le> createdAt a) ts)) \<and>
   (user s = Some u \<and> (\<forall>t\<in>set d. userId t \<noteq> uid u) \<and> now1 \<le> now2 \<longrightarrow>
      GET_todos (Some s)
        (snd (POST_todos (Some s) (Some (Object [(''title'', JStr ''B'')])) id2 now2
          (snd (POST_todos (Some s) (Some (Object [(''title'', JStr ''A'')])) id1 now1 d)))) =
      json_response (TodosJson
        [\<lparr>todo_id = id2, title = ''B'', description = None, completed = False,
           userId = uid u, createdAt = now2, updatedAt = now2\<rparr>,
         \<lparr>todo_id = id1, title = ''A'', description = None, completed = False,
           userId = uid u, createdAt = now1, updatedAt = now1\<rparr>]) 200)"
proof (intro conjI impI)
  assume "user s = Some u"
  then show "\<exists>ts. GET_todos (Some s) d = json_response (TodosJson ts) 200 \<and>
            mset ts = mset (filter (\<lambda>t. userId t = uid u) d) \<and>
            sorted_wrt (\<lambda>a b. createdAt b \<le> createdAt a) ts"
    by (intro exI [where x = "newest_first (filter (\<lambda>t. userId t = uid u) d)"])
      (simp add: GET_todos_def newest_first_mset newest_first_sorted)
next
  assume h: "user s = Some u \<and> (\<forall>t\<in>set d. userId t \<noteq> uid u) \<and> now1 \<le> now2"
  then have none: "filter (\<lambda>t. userId t = uid u) d = []"
    by (simp add: filter_empty_conv)
  have tA: "trim ''A'' \<noteq> []" and tB: "trim ''B'' \<noteq> []"
    by (simp_all add: trim_def is_space_def is_space2_def is_space3_def)
  from h none tA tB show "GET_todos (Some s)
        (snd (POST_todos (Some s) (Some (Object [(''title'', JStr ''B'')])) id2 now2
          (snd (POST_todos (Some s) (Some (Object [(''title'', JStr ''A'')])) id1 now1 d)))) =
      json_response (TodosJson
        [\<lparr>todo_id = id2, title = ''B'', description = None, completed = False,
           userId = uid u, createdAt = now2, updatedAt = now2\<rparr>,
         \<lparr>todo_id = id1, title = ''A'', description = None, completed = False,
           userId = uid u, createdAt = now1, updatedAt = now1\<rparr>]) 200"
    by (simp add: GET_todos_def POST_todos_def create_fields_title newest_first_def Let_def)
qed

theorem list_owned_newest_first_witness:
  "user \<lparr>user = Some \<lparr>uid = ''alice''\<rparr>\<rparr> = Some \<lparr>uid =
       ''alice''\<rparr> \<and>
   GET_todos (Some \<lparr>user = Some \<lparr>uid = ''alice''\<rparr>\<rparr>)
       [\<lparr>todo_id = ''o'', title = ''Old'', description = None, completed = True,
       userId = ''alice'', createdAt = 1, updatedAt = 9\<rparr>, \<lparr>todo_id = ''x'',
       title = ''Walk'', description = None, completed = True, userId = ''bob'', createdAt =
       2, updatedAt = 2\<rparr>, \<lparr>todo_id = ''b'', title = ''B'', description = None,
       completed = False, userId = ''alice'', createdAt = 4, updatedAt = 4\<rparr>] =
       json_response (TodosJson [\<lparr>todo_id = ''b'', title = ''B'', description = None,
       completed = False, userId = ''alice'', createdAt = 4, updatedAt = 4\<rparr>,
       \<lparr>todo_id = ''o'', title = ''Old'', description = None, completed = True,
       userId = ''alice'', createdAt = 1, updatedAt = 9\<rparr>]) 200 \<and>
   GET_todos (Some \<lparr>user = Some \<lparr>uid = ''alice''\<rparr>\<rparr>) (snd
       (POST_todos (Some \<lparr>user = Some \<lparr>uid = ''alice''\<rparr>\<rparr>) (Some
       (Object [(''title'', JStr ''B'')])) ''b'' 4 (snd (POST_todos (Some \<lparr>user =
       Some \<lparr>uid = ''alice''\<rparr>\<rparr>) (Some (Object [(''title'', JStr
       ''A'')])) ''a'' 3 [\<lparr>todo_id = ''x'', title = ''Walk'', description = None,
       completed = True, userId = ''bob'', createdAt = 2, updatedAt = 2\<rparr>])))) =
       json_response (TodosJson [\<lparr>todo_id = ''b'', title = ''B'', description = None,
       completed = False, userId = ''alice'', createdAt = 4, updatedAt = 4\<rparr>,
       \<lparr>todo_id = ''a'', title = ''A'', description = None, completed = False, userId
       = ''alice'', createdAt = 3, updatedAt = 3\<rparr>]) 200"
  using list_owned_newest_first
    [where s = "\<lparr>user = Some \<lparr>uid = ''alice''\<rparr>\<rparr>" and u = "\<lparr>uid =
      ''alice''\<rparr>" and d = "[\<lparr>todo_id = ''x'', title = ''Walk'', description =
      None, completed = True, userId = ''bob'', createdAt = 2, updatedAt = 2\<rparr>]" and
      ?now1.0 = 3 and ?now2.0 = 4 and ?id1.0 = "''a''" and ?id2.0 = "''b''"]
  by (simp add: GET_todos_def newest_first_def)

text \<open>
  Claim C6. Under a valid session a Create whose body has no title, or a title that is
  empty or only white space, answers 400 and leaves the table as it is. A Create whose
  body is a title that is not blank, and every other body that Create accepts, answers
  201 with the created record, which carries the given id, the caller as owner and the
  time of the request as both timestamps, and the table is the old one with this record
  added. Every body that Create accepts has a title that is not blank.
\<close>

theorem create_validates_title:
  "(user s = Some u \<and>
    (get_prop kvs ''title'' = None \<or>
     (\<exists>ti. get_prop kvs ''title'' = Some (JStr ti) \<and> trim ti = [])) \<longrightarrow>
      POST_todos (Some s) (Some (Object kvs)) new_id now d =
        (json_response (ErrorJson ''ValidationError'') 400, d)) \<and>
   (user s = Some u \<and> trim ti \<noteq> [] \<longrightarrow>
      POST_todos (Some s) (Some (Object [(''title'', JStr ti)])) new_id now d =
        (json_response (TodoJson
           \<lparr>todo_id = new_id, title = ti, description = None, completed = False,
             userId = uid u, createdAt = now, updatedAt = now\<rparr>) 201,
         \<lparr>todo_id = new_id, title = ti, description = None, completed = False,
             userId = uid u, createdAt = now, updatedAt = now\<rparr> # d)) \<and>
   (user s = Some u \<and> create_fields b = Some (ti', de, co) \<longrightarrow>
      trim ti' \<noteq> [] \<and>
      POST_todos (Some s) b new_id now d =
        (json_response (TodoJson
           \<lparr>todo_id = new_id, title = ti', description = de, completed = co,
             userId = uid u, createdAt = now, updatedAt = now\<rparr>) 201,
         \<lparr>todo_id = new_id, title = ti', description = de, completed = co,
             userId = uid u, createdAt = now, updatedAt = now\<rparr> # d))"
proof (intro conjI impI)
  assume "user s = Some u \<and>
    (get_prop kvs ''title'' = None \<or>
     (\<exists>ti. get_prop kvs ''title'' = Some (JStr ti) \<and> trim ti = []))"
  then show "POST_todos (Some s) (Some (Object kvs)) new_id now d =
        (json_response (ErrorJson ''ValidationError'') 400, d)"
    by (auto simp: POST_todos_def create_fields_def)
next
  assume "user s = Some u \<and> trim ti \<noteq> []"
  then show "POST_todos (Some s) (Some (Object [(''title'', JStr ti)])) new_id now d =
        (json_response (TodoJson
           \<lparr>todo_id = new_id, title = ti, description = None, completed = False,
             userId = uid u, createdAt = now, updatedAt = now\<rparr>) 201,
         \<lparr>todo_id = new_id, title = ti, description = None, completed = False,
             userId = uid u, createdAt = now, updatedAt = now\<rparr> # d)"
    by (simp add: POST_todos_def create_fields_title Let_def)
next
  assume h: "user s = Some u \<and> create_fields b = Some (ti', de, co)"
  then show "trim ti' \<noteq> []"
    by (auto simp: create_fields_def split: option.splits json.splits jsval.splits if_splits)
  from h show "POST_todos (Some s) b new_id now d =
        (json_response (TodoJson
           \<lparr>todo_id = new_id, title = ti', description = de, completed = co,
             userId = uid u, createdAt = now, updatedAt = now\<rparr>) 201,
         \<lparr>todo_id = new_id, title = ti', description = de, completed = co,
             userId = uid u, createdAt = now, updatedAt = now\<rparr> # d)"
    by (simp add: POST_todos_def Let_def)
qed

theorem create_validates_title_witness:
  "user \<lparr>user = Some \<lparr>uid = ''alice''\<rparr>\<rparr> = Some \<lparr>uid =
       ''alice''\<rparr> \<and>
   get_prop [(''title'', JStr ''  ''), (''completed'', JBool True)] ''title'' = Some (JStr
       ''  '') \<and>
   trim ''  '' = [] \<and>
   POST_todos (Some \<lparr>user = Some \<lparr>uid = ''alice''\<rparr>\<rparr>) (Some (Object
       [(''title'', JStr ''  ''), (''completed'', JBool True)])) ''n'' 5 [\<lparr>todo_id =
       ''x'', title = ''Walk'', description = None, completed = True, userId = ''bob'',
       createdAt = 2, updatedAt = 2\<rparr>] = (json_response (ErrorJson
       ''ValidationError'') 400, [\<lparr>todo_id = ''x'', title = ''Walk'', description =
       None, completed = True, userId = ''bob'', createdAt = 2, updatedAt = 2\<rparr>]) \<and>
   get_prop [(''description'', JStr ''no title'')] ''title'' = None \<and>
   POST_todos (Some \<lparr>user = Some \<lparr>uid = ''alice''\<rparr>\<rparr>) (Some (Object
       [(''description'', JStr ''no title'')])) ''n'' 5 [\<lparr>todo_id = ''x'', title =
       ''Walk'', description = None, completed = True, userId = ''bob'', createdAt = 2,
       updatedAt = 2\<rparr>] = (json_response (ErrorJson ''ValidationError'') 400,
       [\<lparr>todo_id = ''x'', title = ''Walk'', description = None, completed = True,
       userId = ''bob'', createdAt = 2, updatedAt = 2\<rparr>]) \<and>
   trim ''Buy milk'' \<noteq> [] \<and>
   POST_todos (Some \<lparr>user = Some \<lparr>uid = ''alice''\<rparr>\<rparr>) (Some (Object
       [(''title'', JStr ''Buy milk'')])) ''n'' 5 [\<lparr>todo_id = ''x'', title =
       ''Walk'', description = None, completed = True, userId = ''bob'', createdAt = 2,
       updatedAt = 2\<rparr>] = (json_response (TodoJson \<lparr>todo_id = ''n'', title =
       ''Buy milk'', description = None, completed = False, userId = ''alice'', createdAt =
       5, updatedAt = 5\<rparr>) 201, [\<lparr>todo_id = ''n'', title = ''Buy milk'',
       description = None, completed = False, userId = ''alice'', createdAt = 5, updatedAt =
       5\<rparr>, \<lparr>todo_id = ''x'', title = ''Walk'', description = None, completed =
       True, userId = ''bob'', createdAt = 2, updatedAt = 2\<rparr>]) \<and>
   create_fields (Some (Object [(''title'', JStr ''Buy milk'')])) = Some (''Buy milk'', None,
       False)"
  using create_validates_title
    [where s = "\<lparr>user = Some \<lparr>uid = ''alice''\<rparr>\<rparr>" and u = "\<lparr>uid =
      ''alice''\<rparr>" and kvs = "[(''title'', JStr ''  ''), (''completed'', JBool True)]"
      and new_id = "''n''" and now = 5 and d = "[\<lparr>todo_id = ''x'', title = ''Walk'',
      description = None, completed = True, userId = ''bob'', createdAt = 2, updatedAt =
      2\<rparr>]" and ti = "''Buy milk''" and b = "Some (Object [(''title'', JStr
      ''Buy milk'')])" and ti' = "''Buy milk''" and de = None and co = False]
    create_validates_title
    [where s = "\<lparr>user = Some \<lparr>uid = ''alice''\<rparr>\<rparr>" and u = "\<lparr>uid =
      ''alice''\<rparr>" and kvs = "[(''description'', JStr ''no title'')]" and new_id =
      "''n''" and now = 5 and d = "[\<lparr>todo_id = ''x'', title = ''Walk'', description =
      None, completed = True, userId = ''bob'', createdAt = 2, updatedAt = 2\<rparr>]" and
      ti = "''Buy milk''" and b = "Some (Object [(''title'', JStr ''Buy milk'')])" and ti' =
      "''Buy milk''" and de = None and co = False]
  by (simp add: get_prop_def trim_def is_space_def is_space2_def is_space3_def create_fields_def)

section \<open>Properties of the todo context\<close>

text \<open>
  Claim C3. When the request of a mutation (addTodo, updateTodo, deleteTodo,
  toggleComplete) fails, because \<^verbatim>\<open>fetch\<close> rejects or because the response is not
  \<^verbatim>\<open>ok\<close>, the list of todos is the one before the call, the error message of the
  operation is set, and the call ends by re-raising the exception that was caught: the
  rejection of \<^verbatim>\<open>fetch\<close>, or the \<^verbatim>\<open>Error\<close> thrown for the response.
\<close>

theorem mutation_failure_keeps_list:
  fixes fetch :: "('w, todo) fetch" and fetch_d :: "('w, 'a) fetch"
  shows
  "((fst (fetch (addTodo_request td) w) = Inl ea \<or>
     (\<exists>r. fst (fetch (addTodo_request td) w) = Inr r \<and> \<not> ok r \<and>
          ea = Error ''Failed to create todo'')) \<longrightarrow>
      todos (fst (addTodo fetch td s w)) = todos s \<and>
      error (fst (addTodo fetch td s w)) = Some ''Failed to create todo. Please try again.'' \<and>
      fst (snd (addTodo fetch td s w)) = Inl ea) \<and>
   ((fst (fetch (updateTodo_request i upd) w) = Inl eu \<or>
     (\<exists>r. fst (fetch (updateTodo_request i upd) w) = Inr r \<and> \<not> ok r \<and>
          eu = Error ''Failed to update todo'')) \<longrightarrow>
      todos (fst (updateTodo fetch i upd s w)) = todos s \<and>
      error (fst (updateTodo fetch i upd s w)) =
        Some ''Failed to update todo. Please try again.'' \<and>
      fst (snd (updateTodo fetch i upd s w)) = Inl eu) \<and>
   ((fst (fetch_d (deleteTodo_request i) w) = Inl ed \<or>
     (\<exists>r. fst (fetch_d (deleteTodo_request i) w) = Inr r \<and> \<not> ok r \<and>
          ed = Error ''Failed to delete todo'')) \<longrightarrow>
      todos (fst (deleteTodo fetch_d i s w)) = todos s \<and>
      error (fst (deleteTodo fetch_d i s w)) =
        Some ''Failed to delete todo. Please try again.'' \<and>
      fst (snd (deleteTodo fetch_d i s w)) = Inl ed) \<and>
   ((fst (fetch (toggleComplete_request i c) w) = Inl et \<or>
     (\<exists>r. fst (fetch (toggleComplete_request i c) w) = Inr r \<and> \<not> ok r \<and>
          et = Error ''Failed to update todo'')) \<longrightarrow>
      todos (fst (toggleComplete fetch i c s w)) = todos s \<and>
      error (fst (toggleComplete fetch i c s w)) =
        Some ''Failed to update todo. Please try again.'' \<and>
      fst (snd (toggleComplete fetch i c s w)) = Inl et)"
proof (intro conjI)
  show "(fst (fetch (addTodo_request td) w) = Inl ea \<or>
     (\<exists>r. fst (fetch (addTodo_request td) w) = Inr r \<and> \<not> ok r \<and>
          ea = Error ''Failed to create todo'')) \<longrightarrow>
      todos (fst (addTodo fetch td s w)) = todos s \<and>
      error (fst (addTodo fetch td s w)) = Some ''Failed to create todo. Please try again.'' \<and>
      fst (snd (addTodo fetch td s w)) = Inl ea"
    by (cases "fetch (addTodo_request td) w") (auto simp: addTodo_def ok_json_def)
  show "(fst (fetch (updateTodo_request i upd) w) = Inl eu \<or>
     (\<exists>r. fst (fetch (updateTodo_request i upd) w) = Inr r \<and> \<not> ok r \<and>
          eu = Error ''Failed to update todo'')) \<longrightarrow>
      todos (fst (updateTodo fetch i upd s w)) = todos s \<and>
      error (fst (updateTodo fetch i upd s w)) =
        Some ''Failed to update todo. Please try again.'' \<and>
      fst (snd (updateTodo fetch i upd s w)) = Inl eu"
    by (cases "fetch (updateTodo_request i upd) w") (auto simp: updateTodo_def ok_json_def)
  show "(fst (fetch_d (deleteTodo_request i) w) = Inl ed \<or>
     (\<exists>r. fst (fetch_d (deleteTodo_request i) w) = Inr r \<and> \<not> ok r \<and>
          ed = Error ''Failed to delete todo'')) \<longrightarrow>
      todos (fst (deleteTodo fetch_d i s w)) = todos s \<and>
      error (fst (deleteTodo fetch_d i s w)) =
        Some ''Failed to delete todo. Please try again.'' \<and>
      fst (snd (deleteTodo fetch_d i s w)) = Inl ed"
    by (cases "fetch_d (deleteTodo_request i) w") (auto simp: deleteTodo_def)
  show "(fst (fetch (toggleComplete_request i c) w) = Inl et \<or>
     (\<exists>r. fst (fetch (toggleComplete_request i c) w) = Inr r \<and> \<not> ok r \<and>
          et = Error ''Failed to update todo'')) \<longrightarrow>
      todos (fst (toggleComplete fetch i c s w)) = todos s \<and>
      error (fst (toggleComplete fetch i c s w)) =
        Some ''Failed to update todo. Please try again.'' \<and>
      fst (snd (toggleComplete fetch i c s w)) = Inl et"
    by (cases "fetch (toggleComplete_request i c) w") (auto simp: toggleComplete_def ok_json_def)
qed

theorem mutation_failure_keeps_list_witness:
  "todos (fst (addTodo ((\<lambda>req w. (Inl (TypeError ''Failed to fetch''), w)) :: (unit,
       todo) fetch) [(''title'', JStr ''Walk'')] \<lparr>todos = [\<lparr>todo_id = ''t1'',
       title = ''Buy milk'', description = None, completed = False, userId = ''alice'',
       createdAt = 1, updatedAt = 1\<rparr>], loading = False, error = None\<rparr> ())) =
       [\<lparr>todo_id = ''t1'', title = ''Buy milk'', description = None, completed =
       False, userId = ''alice'', createdAt = 1, updatedAt = 1\<rparr>] \<and>
   fst (snd (addTodo ((\<lambda>req w. (Inl (TypeError ''Failed to fetch''), w)) :: (unit,
       todo) fetch) [(''title'', JStr ''Walk'')] \<lparr>todos = [\<lparr>todo_id = ''t1'',
       title = ''Buy milk'', description = None, completed = False, userId = ''alice'',
       createdAt = 1, updatedAt = 1\<rparr>], loading = False, error = None\<rparr> ())) =
       Inl (TypeError ''Failed to fetch'') \<and>
   todos (fst (updateTodo ((\<lambda>req w. (Inl (TypeError ''Failed to fetch''), w)) :: (unit,
       todo) fetch) ''t1'' [(''title'', JStr ''Walk'')] \<lparr>todos = [\<lparr>todo_id =
       ''t1'', title = ''Buy milk'', description = None, completed = False, userId =
       ''alice'', createdAt = 1, updatedAt = 1\<rparr>], loading = False, error =
       None\<rparr> ())) = [\<lparr>todo_id = ''t1'', title = ''Buy milk'', description =
       None, completed = False, userId = ''alice'', createdAt = 1, updatedAt = 1\<rparr>] \<and>
   fst (snd (updateTodo ((\<lambda>req w. (Inl (TypeError ''Failed to fetch''), w)) :: (unit,
       todo) fetch) ''t1'' [(''title'', JStr ''Walk'')] \<lparr>todos = [\<lparr>todo_id =
       ''t1'', title = ''Buy milk'', description = None, completed = False, userId =
       ''alice'', createdAt = 1, updatedAt = 1\<rparr>], loading = False, error =
       None\<rparr> ())) = Inl (TypeError ''Failed to fetch'') \<and>
   todos (fst (deleteTodo ((\<lambda>req w. (Inl (TypeError ''Failed to fetch''), w)) :: (unit,
       todo) fetch) ''t1'' \<lparr>todos = [\<lparr>todo_id = ''t1'', title = ''Buy milk'',
       description = None, completed = False, userId = ''alice'', createdAt = 1, updatedAt =
       1\<rparr>], loading = False, error = None\<rparr> ())) = [\<lparr>todo_id = ''t1'',
       title = ''Buy milk'', description = None, completed = False, userId = ''alice'',
       createdAt = 1, updatedAt = 1\<rparr>] \<and>
   fst (snd (deleteTodo ((\<lambda>req w. (Inl (TypeError ''Failed to fetch''), w)) :: (unit,
       todo) fetch) ''t1'' \<lparr>todos = [\<lparr>todo_id = ''t1'', title = ''Buy milk'',
       description = None, completed = False, userId = ''alice'', createdAt = 1, updatedAt =
       1\<rparr>], loading = False, error = None\<rparr> ())) = Inl (TypeError
       ''Failed to fetch'') \<and>
   todos (fst (toggleComplete ((\<lambda>req w. (Inl (TypeError ''Failed to fetch''), w)) ::
       (unit, todo) fetch) ''t1'' False \<lparr>todos = [\<lparr>todo_id = ''t1'', title =
       ''Buy milk'', description = None, completed = False, userId = ''alice'', createdAt =
       1, updatedAt = 1\<rparr>], loading = False, error = None\<rparr> ())) =
       [\<lparr>todo_id = ''t1'', title = ''Buy milk'', description = None, completed =
       False, userId = ''alice'', createdAt = 1, updatedAt = 1\<rparr>] \<and>
   error (fst (toggleComplete ((\<lambda>req w. (Inl (TypeError ''Failed to fetch''), w)) ::
       (unit, todo) fetch) ''t1'' False \<lparr>todos = [\<lparr>todo_id = ''t1'', title =
       ''Buy milk'', description = None, completed = False, userId = ''alice'', createdAt =
       1, updatedAt = 1\<rparr>], loading = False, error = None\<rparr> ())) = Some
       ''Failed to update todo. Please try again.'' \<and>
   todos (fst (addTodo ((\<lambda>req w. (Inr \<lparr>ok = False, json = Inl (SyntaxError
       ''Unexpected token'')\<rparr>, w)) :: (unit, todo) fetch) [(''title'', JStr
       ''Walk'')] \<lparr>todos = [\<lparr>todo_id = ''t1'', title = ''Buy milk'',
       description = None, completed = False, userId = ''alice'', createdAt = 1, updatedAt =
       1\<rparr>], loading = False, error = None\<rparr> ())) = [\<lparr>todo_id = ''t1'',
       title = ''Buy milk'', description = None, completed = False, userId = ''alice'',
       createdAt = 1, updatedAt = 1\<rparr>] \<and>
   fst (snd (addTodo ((\<lambda>req w. (Inr \<lparr>ok = False, json = Inl (SyntaxError
       ''Unexpected token'')\<rparr>, w)) :: (unit, todo) fetch) [(''title'', JStr
       ''Walk'')] \<lparr>todos = [\<lparr>todo_id = ''t1'', title = ''Buy milk'',
       description = None, completed = False, userId = ''alice'', createdAt = 1, updatedAt =
       1\<rparr>], loading = False, error = None\<rparr> ())) = Inl (Error
       ''Failed to create todo'') \<and>
   todos (fst (updateTodo ((\<lambda>req w. (Inr \<lparr>ok = False, json = Inl (SyntaxError
       ''Unexpected token'')\<rparr>, w)) :: (unit, todo) fetch) ''t1'' [(''title'', JStr
       ''Walk'')] \<lparr>todos = [\<lparr>todo_id = ''t1'', title = ''Buy milk'',
       description = None, completed = False, userId = ''alice'', createdAt = 1, updatedAt =
       1\<rparr>], loading = False, error = None\<rparr> ())) = [\<lparr>todo_id = ''t1'',
       title = ''Buy milk'', description = None, completed = False, userId = ''alice'',
       createdAt = 1, updatedAt = 1\<rparr>] \<and>
   fst (snd (updateTodo ((\<lambda>req w. (Inr \<lparr>ok = False, json = Inl (SyntaxError
       ''Unexpected token'')\<rparr>, w)) :: (unit, todo) fetch) ''t1'' [(''title'', JStr
       ''Walk'')] \<lparr>todos = [\<lparr>todo_id = ''t1'', title = ''Buy milk'',
       description = None, completed = False, userId = ''alice'', createdAt = 1, updatedAt =
       1\<rparr>], loading = False, error = None\<rparr> ())) = Inl (Error
       ''Failed to update todo'') \<and>
   todos (fst (deleteTodo ((\<lambda>req w. (Inr \<lparr>ok = False, json = Inl (SyntaxError
       ''Unexpected token'')\<rparr>, w)) :: (unit, todo) fetch) ''t1'' \<lparr>todos =
       [\<lparr>todo_id = ''t1'', title = ''Buy milk'', description = None, completed =
       False, userId = ''alice'', createdAt = 1, updatedAt = 1\<rparr>], loading = False,
       error = None\<rparr> ())) = [\<lparr>todo_id = ''t1'', title = ''Buy milk'',
       description = None, completed = False, userId = ''alice'', createdAt = 1, updatedAt =
       1\<rparr>] \<and>
   fst (snd (deleteTodo ((\<lambda>req w. (Inr \<lparr>ok = False, json = Inl (SyntaxError
       ''Unexpected token'')\<rparr>, w)) :: (unit, todo) fetch) ''t1'' \<lparr>todos =
       [\<lparr>todo_id = ''t1'', title = ''Buy milk'', description = None, completed =
       False, userId = ''alice'', createdAt = 1, updatedAt = 1\<rparr>], loading = False,
       error = None\<rparr> ())) = Inl (Error ''Failed to delete todo'') \<and>
   todos (fst (toggleComplete ((\<lambda>req w. (Inr \<lparr>ok = False, json = Inl
       (SyntaxError ''Unexpected token'')\<rparr>, w)) :: (unit, todo) fetch) ''t1'' False
       \<lparr>todos = [\<lparr>todo_id = ''t1'', title = ''Buy milk'', description = None,
       completed = False, userId = ''alice'', createdAt = 1, updatedAt = 1\<rparr>], loading
       = False, error = None\<rparr> ())) = [\<lparr>todo_id = ''t1'', title = ''Buy milk'',
       description = None, completed = False, userId = ''alice'', createdAt = 1, updatedAt =
       1\<rparr>] \<and>
   error (fst (toggleComplete ((\<lambda>req w. (Inr \<lparr>ok = False, json = Inl
       (SyntaxError ''Unexpected token'')\<rparr>, w)) :: (unit, todo) fetch) ''t1'' False
       \<lparr>todos = [\<lparr>todo_id = ''t1'', title = ''Buy milk'', description = None,
       completed = False, userId = ''alice'', createdAt = 1, updatedAt = 1\<rparr>], loading
       = False, error = None\<rparr> ())) = Some
       ''Failed to update todo. Please try again.''"
  using mutation_failure_keeps_list
    [where fetch = "(\<lambda>req w. (Inl (TypeError ''Failed to fetch''), w)) :: (unit, todo) fetch"
      and td = "[(''title'', JStr ''Walk'')]" and w = "()" and ea = "TypeError
      ''Failed to fetch''" and s = "\<lparr>todos = [\<lparr>todo_id = ''t1'', title =
      ''Buy milk'', description = None, completed = False, userId = ''alice'', createdAt =
      1, updatedAt = 1\<rparr>], loading = False, error = None\<rparr>" and i = "''t1''" and
      upd = "[(''title'', JStr ''Walk'')]" and eu = "TypeError ''Failed to fetch''" and
      fetch_d = "(\<lambda>req w. (Inl (TypeError ''Failed to fetch''), w)) :: (unit, todo)
      fetch" and ed = "TypeError ''Failed to fetch''" and c = False and et = "TypeError
      ''Failed to fetch''"]
    mutation_failure_keeps_list
    [where fetch = "(\<lambda>req w. (Inr \<lparr>ok = False, json = Inl (SyntaxError
      ''Unexpected token'')\<rparr>, w)) :: (unit, todo) fetch" and td = "[(''title'', JStr
      ''Walk'')]" and w = "()" and ea = "Error ''Failed to create todo''" and s =
      "\<lparr>todos = [\<lparr>todo_id = ''t1'', title = ''Buy milk'', description = None,
      completed = False, userId = ''alice'', createdAt = 1, updatedAt = 1\<rparr>], loading
      = False, error = None\<rparr>" and i = "''t1''" and upd = "[(''title'', JStr
      ''Walk'')]" and eu = "Error ''Failed to update todo''" and fetch_d = "(\<lambda>req w.
      (Inr \<lparr>ok = False, json = Inl (SyntaxError ''Unexpected token'')\<rparr>, w)) ::
      (unit, todo) fetch" and ed = "Error ''Failed to delete todo''" and c = False and et =
      "Error ''Failed to update todo''"]
  by (simp add: addTodo_def updateTodo_def deleteTodo_def toggleComplete_def ok_json_def)

lemma replace_by_id_nth:
  "k < length xs \<Longrightarrow>
   map (\<lambda>todo. if todo_id todo = i then t else todo) xs ! k =
     (if todo_id (xs ! k) = i then t else xs ! k)"
  by simp

text \<open>
  Claim C4. When the request of a mutation succeeds (the response is \<^verbatim>\<open>ok\<close> and its
  body parses), addTodo puts the returned record at the front of the list; updateTodo and
  toggleComplete give a list of the same length in which each position whose entry has the
  given id holds the returned record and every other position holds its old entry;
  deleteTodo keeps, in their order, exactly the entries whose id is not the given one.
\<close>

theorem mutation_success_patches_list:
  fixes fetch :: "('w, todo) fetch" and fetch_d :: "('w, 'a) fetch"
  shows
  "(fst (fetch (addTodo_request td) w) = Inr ra \<and> ok ra \<and> json ra = Inr ta \<longrightarrow>
      todos (fst (addTodo fetch td s w)) = ta # todos s \<and>
      fst (snd (addTodo fetch td s w)) = Inr ()) \<and>
   (fst (fetch (updateTodo_request i upd) w) = Inr ru \<and> ok ru \<and> json ru = Inr tu \<longrightarrow>
      length (todos (fst (updateTodo fetch i upd s w))) = length (todos s) \<and>
      (\<forall>k<length (todos s).
         todos (fst (updateTodo fetch i upd s w)) ! k =
           (if todo_id (todos s ! k) = i then tu else todos s ! k)) \<and>
      fst (snd (updateTodo fetch i upd s w)) = Inr ()) \<and>
   (fst (fetch (toggleComplete_request i c) w) = Inr rt \<and> ok rt \<and> json rt = Inr tt \<longrightarrow>
      length (todos (fst (toggleComplete fetch i c s w))) = length (todos s) \<and>
      (\<forall>k<length (todos s).
         todos (fst (toggleComplete fetch i c s w)) ! k =
           (if todo_id (todos s ! k) = i then tt else todos s ! k)) \<and>
      fst (snd (toggleComplete fetch i c s w)) = Inr ()) \<and>
   (fst (fetch_d (deleteTodo_request i) w) = Inr rd \<and> ok rd \<longrightarrow>
      todos (fst (deleteTodo fetch_d i s w)) = filter (\<lambda>todo. todo_id todo \<noteq> i) (todos s) \<and>
      fst (snd (deleteTodo fetch_d i s w)) = Inr ())"
proof (intro conjI impI)
  assume "fst (fetch (addTodo_request td) w) = Inr ra \<and> ok ra \<and> json ra = Inr ta"
  then show "todos (fst (addTodo fetch td s w)) = ta # todos s"
    and "fst (snd (addTodo fetch td s w)) = Inr ()"
    by (cases "fetch (addTodo_request td) w"; simp add: addTodo_def ok_json_def)+
next
  assume "fst (fetch (updateTodo_request i upd) w) = Inr ru \<and> ok ru \<and> json ru = Inr tu"
  then have "fst (updateTodo fetch i upd s w) =
      s\<lparr>todos := map (\<lambda>todo. if todo_id todo = i then tu else todo) (todos s), error := None\<rparr>"
    and r: "fst (snd (updateTodo fetch i upd s w)) = Inr ()"
    by (cases "fetch (updateTodo_request i upd) w"; simp add: updateTodo_def ok_json_def)+
  then show "length (todos (fst (updateTodo fetch i upd s w))) = length (todos s)"
    and "\<forall>k<length (todos s).
         todos (fst (updateTodo fetch i upd s w)) ! k =
           (if todo_id (todos s ! k) = i then tu else todos s ! k)"
    by simp_all
  from r show "fst (snd (updateTodo fetch i upd s w)) = Inr ()" .
next
  assume "fst (fetch (toggleComplete_request i c) w) = Inr rt \<and> ok rt \<and> json rt = Inr tt"
  then have "fst (toggleComplete fetch i c s w) =
      s\<lparr>todos := map (\<lambda>todo. if todo_id todo = i then tt else todo) (todos s), error := None\<rparr>"
    and r: "fst (snd (toggleComplete fetch i c s w)) = Inr ()"
    by (cases "fetch (toggleComplete_request i c) w"; simp add: toggleComplete_def ok_json_def)+
  then show "length (todos (fst (toggleComplete fetch i c s w))) = length (todos s)"
    and "\<forall>k<length (todos s).
         todos (fst (toggleComplete fetch i c s w)) ! k =
           (if todo_id (todos s ! k) = i then tt else todos s ! k)"
    by simp_all
  from r show "fst (snd (toggleComplete fetch i c s w)) = Inr ()" .
next
  assume "fst (fetch_d (deleteTodo_request i) w) = Inr rd \<and> ok rd"
  then show "todos (fst (deleteTodo fetch_d i s w)) =
      filter (\<lambda>todo. todo_id todo \<noteq> i) (todos s)"
    and "fst (snd (deleteTodo fetch_d i s w)) = Inr ()"
    by (cases "fetch_d (deleteTodo_request i) w"; simp add: deleteTodo_def)+
qed

theorem mutation_success_patches_list_witness:
  "todos (fst (addTodo ((\<lambda>req w. (Inr \<lparr>ok = True, json = Inr \<lparr>todo_id =
       ''t1'', title = ''Buy milk'', description = None, completed = True, userId =
       ''alice'', createdAt = 1, updatedAt = 3\<rparr>\<rparr>, w)) :: (unit, todo) fetch)
       [(''title'', JStr ''Buy milk'')] \<lparr>todos = [\<lparr>todo_id = ''t1'', title =
       ''Buy milk'', description = None, completed = False, userId = ''alice'', createdAt =
       1, updatedAt = 1\<rparr>, \<lparr>todo_id = ''t2'', title = ''Walk'', description =
       None, completed = False, userId = ''alice'', createdAt = 2, updatedAt = 2\<rparr>],
       loading = False, error = None\<rparr> ())) = [\<lparr>todo_id = ''t1'', title =
       ''Buy milk'', description = None, completed = True, userId = ''alice'', createdAt =
       1, updatedAt = 3\<rparr>, \<lparr>todo_id = ''t1'', title = ''Buy milk'', description
       = None, completed = False, userId = ''alice'', createdAt = 1, updatedAt = 1\<rparr>,
       \<lparr>todo_id = ''t2'', title = ''Walk'', description = None, completed = False,
       userId = ''alice'', createdAt = 2, updatedAt = 2\<rparr>] \<and>
   todos (fst (updateTodo ((\<lambda>req w. (Inr \<lparr>ok = True, json = Inr \<lparr>todo_id
       = ''t1'', title = ''Buy milk'', description = None, completed = True, userId =
       ''alice'', createdAt = 1, updatedAt = 3\<rparr>\<rparr>, w)) :: (unit, todo) fetch)
       ''t1'' [(''completed'', JBool True)] \<lparr>todos = [\<lparr>todo_id = ''t1'', title
       = ''Buy milk'', description = None, completed = False, userId = ''alice'', createdAt
       = 1, updatedAt = 1\<rparr>, \<lparr>todo_id = ''t2'', title = ''Walk'', description =
       None, completed = False, userId = ''alice'', createdAt = 2, updatedAt = 2\<rparr>],
       loading = False, error = None\<rparr> ())) = [\<lparr>todo_id = ''t1'', title =
       ''Buy milk'', description = None, completed = True, userId = ''alice'', createdAt =
       1, updatedAt = 3\<rparr>, \<lparr>todo_id = ''t2'', title = ''Walk'', description =
       None, completed = False, userId = ''alice'', createdAt = 2, updatedAt = 2\<rparr>] \<and>
   todos (fst (toggleComplete ((\<lambda>req w. (Inr \<lparr>ok = True, json = Inr
       \<lparr>todo_id = ''t1'', title = ''Buy milk'', description = None, completed = True,
       userId = ''alice'', createdAt = 1, updatedAt = 3\<rparr>\<rparr>, w)) :: (unit, todo)
       fetch) ''t1'' False \<lparr>todos = [\<lparr>todo_id = ''t1'', title = ''Buy milk'',
       description = None, completed = False, userId = ''alice'', createdAt = 1, updatedAt =
       1\<rparr>, \<lparr>todo_id = ''t2'', title = ''Walk'', description = None, completed
       = False, userId = ''alice'', createdAt = 2, updatedAt = 2\<rparr>], loading = False,
       error = None\<rparr> ())) = [\<lparr>todo_id = ''t1'', title = ''Buy milk'',
       description = None, completed = True, userId = ''alice'', createdAt = 1, updatedAt =
       3\<rparr>, \<lparr>todo_id = ''t2'', title = ''Walk'', description = None, completed
       = False, userId = ''alice'', createdAt = 2, updatedAt = 2\<rparr>] \<and>
   todos (fst (deleteTodo ((\<lambda>req w. (Inr \<lparr>ok = True, json = Inr \<lparr>todo_id
       = ''t1'', title = ''Buy milk'', description = None, completed = True, userId =
       ''alice'', createdAt = 1, updatedAt = 3\<rparr>\<rparr>, w)) :: (unit, todo) fetch)
       ''t1'' \<lparr>todos = [\<lparr>todo_id = ''t1'', title = ''Buy milk'', description =
       None, completed = False, userId = ''alice'', createdAt = 1, updatedAt = 1\<rparr>,
       \<lparr>todo_id = ''t2'', title = ''Walk'', description = None, completed = False,
       userId = ''alice'', createdAt = 2, updatedAt = 2\<rparr>], loading = False, error =
       None\<rparr> ())) = [\<lparr>todo_id = ''t2'', title = ''Walk'', description = None,
       completed = False, userId = ''alice'', createdAt = 2, updatedAt = 2\<rparr>] \<and>
   fst (snd (deleteTodo ((\<lambda>req w. (Inr \<lparr>ok = True, json = Inr \<lparr>todo_id =
       ''t1'', title = ''Buy milk'', description = None, completed = True, userId =
       ''alice'', createdAt = 1, updatedAt = 3\<rparr>\<rparr>, w)) :: (unit, todo) fetch)
       ''t1'' \<lparr>todos = [\<lparr>todo_id = ''t1'', title = ''Buy milk'', description =
       None, completed = False, userId = ''alice'', createdAt = 1, updatedAt = 1\<rparr>,
       \<lparr>todo_id = ''t2'', title = ''Walk'', description = None, completed = False,
       userId = ''alice'', createdAt = 2, updatedAt = 2\<rparr>], loading = False, error =
       None\<rparr> ())) = Inr ()"
  using mutation_success_patches_list
    [where fetch = "(\<lambda>req w. (Inr \<lparr>ok = True, json = Inr \<lparr>todo_id = ''t1'', title
      = ''Buy milk'', description = None, completed = True, userId = ''alice'', createdAt =
      1, updatedAt = 3\<rparr>\<rparr>, w)) :: (unit, todo) fetch" and td = "[(''title'',
      JStr ''Buy milk'')]" and w = "()" and ra = "\<lparr>ok = True, json = Inr
      \<lparr>todo_id = ''t1'', title = ''Buy milk'', description = None, completed = True,
      userId = ''alice'', createdAt = 1, updatedAt = 3\<rparr>\<rparr>" and ta =
      "\<lparr>todo_id = ''t1'', title = ''Buy milk'', description = None, completed = True,
      userId = ''alice'', createdAt = 1, updatedAt = 3\<rparr>" and s = "\<lparr>todos =
      [\<lparr>todo_id = ''t1'', title = ''Buy milk'', description = None, completed =
      False, userId = ''alice'', createdAt = 1, updatedAt = 1\<rparr>, \<lparr>todo_id =
      ''t2'', title = ''Walk'', description = None, completed = False, userId = ''alice'',
      createdAt = 2, updatedAt = 2\<rparr>], loading = False, error = None\<rparr>" and i =
      "''t1''" and upd = "[(''completed'', JBool True)]" and ru = "\<lparr>ok = True, json =
      Inr \<lparr>todo_id = ''t1'', title = ''Buy milk'', description = None, completed =
      True, userId = ''alice'', createdAt = 1, updatedAt = 3\<rparr>\<rparr>" and tu =
      "\<lparr>todo_id = ''t1'', title = ''Buy milk'', description = None, completed = True,
      userId = ''alice'', createdAt = 1, updatedAt = 3\<rparr>" and c = False and rt =
      "\<lparr>ok = True, json = Inr \<lparr>todo_id = ''t1'', title = ''Buy milk'',
      description = None, completed = True, userId = ''alice'', createdAt = 1, updatedAt =
      3\<rparr>\<rparr>" and tt = "\<lparr>todo_id = ''t1'', title = ''Buy milk'',
      description = None, completed = True, userId = ''alice'', createdAt = 1, updatedAt =
      3\<rparr>" and fetch_d = "(\<lambda>req w. (Inr \<lparr>ok = True, json = Inr
      \<lparr>todo_id = ''t1'', title = ''Buy milk'', description = None, completed = True,
      userId = ''alice'', createdAt = 1, updatedAt = 3\<rparr>\<rparr>, w)) :: (unit, todo)
      fetch" and rd = "\<lparr>ok = True, json = Inr \<lparr>todo_id = ''t1'', title =
      ''Buy milk'', description = None, completed = True, userId = ''alice'', createdAt = 1,
      updatedAt = 3\<rparr>\<rparr>"]
  by (simp add: addTodo_def updateTodo_def deleteTodo_def toggleComplete_def ok_json_def)

text \<open>
  Claim C9, as amended. When the request of fetchTodos fails, the list of todos is the one
  before the call: empty on the first load, the loaded list on a later refresh. The error
  message is set and \<open>loading\<close> ends. refreshTodos is fetchTodos.
\<close>

theorem fetch_failure_keeps_list:
  fixes fetch :: "('w, todo list) fetch"
  shows
  "(fst (fetch fetchTodos_request w) = Inl e \<or>
    (\<exists>r. fst (fetch fetchTodos_request w) = Inr r \<and> \<not> ok r)) \<longrightarrow>
     todos (fst (fetchTodos fetch s w)) = todos s \<and>
     error (fst (fetchTodos fetch s w)) = Some ''Failed to load todos. Please try again later.'' \<and>
     loading (fst (fetchTodos fetch s w)) = False \<and>
     refreshTodos fetch s w = fetchTodos fetch s w \<and>
     todos (fst (fetchTodos fetch initial_state w)) = []"
  by (cases "fetch fetchTodos_request w")
    (auto simp: fetchTodos_def refreshTodos_def ok_json_def initial_state_def Let_def)

theorem fetch_failure_keeps_list_witness:
  "todos (fst (fetchTodos ((\<lambda>req w. (Inl (TypeError ''Failed to fetch''), w)) :: (unit,
       todo list) fetch) \<lparr>todos = [\<lparr>todo_id = ''t1'', title = ''Buy milk'',
       description = None, completed = False, userId = ''alice'', createdAt = 1, updatedAt =
       1\<rparr>], loading = False, error = None\<rparr> ())) = [\<lparr>todo_id = ''t1'',
       title = ''Buy milk'', description = None, completed = False, userId = ''alice'',
       createdAt = 1, updatedAt = 1\<rparr>] \<and>
   error (fst (fetchTodos ((\<lambda>req w. (Inl (TypeError ''Failed to fetch''), w)) :: (unit,
       todo list) fetch) \<lparr>todos = [\<lparr>todo_id = ''t1'', title = ''Buy milk'',
       description = None, completed = False, userId = ''alice'', createdAt = 1, updatedAt =
       1\<rparr>], loading = False, error = None\<rparr> ())) = Some
       ''Failed to load todos. Please try again later.'' \<and>
   loading (fst (fetchTodos ((\<lambda>req w. (Inl (TypeError ''Failed to fetch''), w)) ::
       (unit, todo list) fetch) \<lparr>todos = [\<lparr>todo_id = ''t1'', title =
       ''Buy milk'', description = None, completed = False, userId = ''alice'', createdAt =
       1, updatedAt = 1\<rparr>], loading = False, error = None\<rparr> ())) = False \<and>
   todos (fst (fetchTodos ((\<lambda>req w. (Inl (TypeError ''Failed to fetch''), w)) :: (unit,
       todo list) fetch) initial_state ())) = [] \<and>
   todos (fst (fetchTodos ((\<lambda>req w. (Inr \<lparr>ok = False, json = Inr []\<rparr>, w))
       :: (unit, todo list) fetch) \<lparr>todos = [\<lparr>todo_id = ''t1'', title =
       ''Buy milk'', description = None, completed = False, userId = ''alice'', createdAt =
       1, updatedAt = 1\<rparr>], loading = False, error = None\<rparr> ())) =
       [\<lparr>todo_id = ''t1'', title = ''Buy milk'', description = None, completed =
       False, userId = ''alice'', createdAt = 1, updatedAt = 1\<rparr>] \<and>
   error (fst (fetchTodos ((\<lambda>req w. (Inr \<lparr>ok = False, json = Inr []\<rparr>, w))
       :: (unit, todo list) fetch) \<lparr>todos = [\<lparr>todo_id = ''t1'', title =
       ''Buy milk'', description = None, completed = False, userId = ''alice'', createdAt =
       1, updatedAt = 1\<rparr>], loading = False, error = None\<rparr> ())) = Some
       ''Failed to load todos. Please try again later.'' \<and>
   loading (fst (fetchTodos ((\<lambda>req w. (Inr \<lparr>ok = False, json = Inr []\<rparr>,
       w)) :: (unit, todo list) fetch) \<lparr>todos = [\<lparr>todo_id = ''t1'', title =
       ''Buy milk'', description = None, completed = False, userId = ''alice'', createdAt =
       1, updatedAt = 1\<rparr>], loading = False, error = None\<rparr> ())) = False \<and>
   todos (fst (fetchTodos ((\<lambda>req w. (Inr \<lparr>ok = False, json = Inr []\<rparr>, w))
       :: (unit, todo list) fetch) initial_state ())) = []"
  using fetch_failure_keeps_list
    [where fetch = "(\<lambda>req w. (Inl (TypeError ''Failed to fetch''), w)) :: (unit, todo list)
      fetch" and w = "()" and e = "TypeError ''Failed to fetch''" and s = "\<lparr>todos =
      [\<lparr>todo_id = ''t1'', title = ''Buy milk'', description = None, completed =
      False, userId = ''alice'', createdAt = 1, updatedAt = 1\<rparr>], loading = False,
      error = None\<rparr>"]
    fetch_failure_keeps_list
    [where fetch = "(\<lambda>req w. (Inr \<lparr>ok = False, json = Inr []\<rparr>, w)) :: (unit, todo
      list) fetch" and w = "()" and e = "Error ''x''" and s = "\<lparr>todos =
      [\<lparr>todo_id = ''t1'', title = ''Buy milk'', description = None, completed =
      False, userId = ''alice'', createdAt = 1, updatedAt = 1\<rparr>], loading = False,
      error = None\<rparr>"]
  by (simp add: fetchTodos_def ok_json_def initial_state_def)

text \<open>
  The claim as stated fails: a refresh that fails after a successful load leaves the loaded
  list in place, not the empty list.
\<close>

theorem failed_refresh_list_empty_counterexample:
  "todos (fst (fetchTodos ((\<lambda>req w. (Inr \<lparr>ok = True, json = Inr [\<lparr>todo_id
       = ''t1'', title = ''Buy milk'', description = None, completed = False, userId =
       ''alice'', createdAt = 1, updatedAt = 1\<rparr>]\<rparr>, w)) :: (unit, todo list)
       fetch) initial_state ())) = [\<lparr>todo_id = ''t1'', title = ''Buy milk'',
       description = None, completed = False, userId = ''alice'', createdAt = 1, updatedAt =
       1\<rparr>] \<and>
   fst (((\<lambda>req w. (Inl (TypeError ''Failed to fetch''), w)) :: (unit, todo list) fetch)
       fetchTodos_request ()) = Inl (TypeError ''Failed to fetch'') \<and>
   todos (fst (refreshTodos ((\<lambda>req w. (Inl (TypeError ''Failed to fetch''), w)) ::
       (unit, todo list) fetch) (fst (fetchTodos ((\<lambda>req w. (Inr \<lparr>ok = True,
       json = Inr [\<lparr>todo_id = ''t1'', title = ''Buy milk'', description = None,
       completed = False, userId = ''alice'', createdAt = 1, updatedAt = 1\<rparr>]\<rparr>,
       w)) :: (unit, todo list) fetch) initial_state ())) ())) = [\<lparr>todo_id = ''t1'',
       title = ''Buy milk'', description = None, completed = False, userId = ''alice'',
       createdAt = 1, updatedAt = 1\<rparr>] \<and>
   todos (fst (refreshTodos ((\<lambda>req w. (Inl (TypeError ''Failed to fetch''), w)) ::
       (unit, todo list) fetch) (fst (fetchTodos ((\<lambda>req w. (Inr \<lparr>ok = True,
       json = Inr [\<lparr>todo_id = ''t1'', title = ''Buy milk'', description = None,
       completed = False, userId = ''alice'', createdAt = 1, updatedAt = 1\<rparr>]\<rparr>,
       w)) :: (unit, todo list) fetch) initial_state ())) ())) \<noteq> [] \<and>
   error (fst (refreshTodos ((\<lambda>req w. (Inl (TypeError ''Failed to fetch''), w)) ::
       (unit, todo list) fetch) (fst (fetchTodos ((\<lambda>req w. (Inr \<lparr>ok = True,
       json = Inr [\<lparr>todo_id = ''t1'', title = ''Buy milk'', description = None,
       completed = False, userId = ''alice'', createdAt = 1, updatedAt = 1\<rparr>]\<rparr>,
       w)) :: (unit, todo list) fetch) initial_state ())) ())) = Some
       ''Failed to load todos. Please try again later.''"
  by (simp add: refreshTodos_def fetchTodos_def ok_json_def initial_state_def)

section \<open>Properties of the components\<close>

text \<open>
  The edit form and the form for a new todo refuse a title that is empty after trimming:
  they set their message and send nothing. Otherwise they send one request, whose title
  is the trimmed, non-empty text.
\<close>

lemma trim_examples:
  "trim ''  Buy milk  '' = ''Buy milk'' \<and>
   trim [CHR 0xC2, CHR 0xA0] = [] \<and>
   trim [CHR 0xE2, CHR 0x80, CHR 0xA8, CHR ''a'', CHR '' '', CHR ''b'', CHR 0xEF, CHR 0xBB,
         CHR 0xBF, CHR 0x0A] = ''a b''"
  by (simp add: trim_def is_space_def is_space2_def is_space3_def)

lemma handleSave_no_break_space:
  "editedTitle st = [CHR 0xC2, CHR 0xA0] \<Longrightarrow>
   handleSave (logged fetch) todo st s (w, log) =
     (st\<lparr>item_error := Some ''Title cannot be empty''\<rparr>, s, (w, log))"
  by (simp add: handleSave_def trim_def is_space_def is_space2_def)

lemma updateTodo_logged:
  "snd (snd (snd (updateTodo (logged fetch) i upd s (w, log)))) =
     log @ [updateTodo_request i upd]"
  by (simp add: updateTodo_def logged_def split: prod.splits sum.splits)

lemma addTodo_logged:
  "snd (snd (snd (addTodo (logged fetch) td s (w, log)))) = log @ [addTodo_request td]"
  by (simp add: addTodo_def logged_def split: prod.splits sum.splits)

lemma handleSave_blank_title:
  "trim (editedTitle st) = [] \<Longrightarrow>
   handleSave (logged fetch) todo st s (w, log) =
     (st\<lparr>item_error := Some ''Title cannot be empty''\<rparr>, s, (w, log))"
  by (simp add: handleSave_def)

lemma handleSave_request:
  assumes "trim (editedTitle st) \<noteq> []"
  shows "snd (snd (snd (handleSave (logged fetch) todo st s (w, log)))) =
     log @ [updateTodo_request (todo_id todo)
              [(''title'', JStr (trim (editedTitle st))),
               (''description'',
                  if trim (editedDescription st) = [] then JNull
                  else JStr (trim (editedDescription st)))]]"
proof -
  let ?upd = "[(''title'', JStr (trim (editedTitle st))),
               (''description'',
                  if trim (editedDescription st) = [] then JNull
                  else JStr (trim (editedDescription st)))]"
  obtain s' r w' l' where
    u: "updateTodo (logged fetch) (todo_id todo) ?upd s (w, log) = (s', r, w', l')"
    by (cases "updateTodo (logged fetch) (todo_id todo) ?upd s (w, log)") auto
  with updateTodo_logged [of fetch "todo_id todo" ?upd s w log]
  have "l' = log @ [updateTodo_request (todo_id todo) ?upd]" by simp
  with u assms show ?thesis
    by (cases r) (simp_all add: handleSave_def Let_def)
qed

lemma handleSubmit_blank_title:
  "trim (form_title st) = [] \<Longrightarrow>
   handleSubmit (logged fetch) st s (w, log) =
     (st\<lparr>form_error := Some ''Title is required''\<rparr>, s, (w, log))"
  by (simp add: handleSubmit_def)

lemma handleSubmit_request:
  assumes "trim (form_title st) \<noteq> []"
  shows "snd (snd (snd (handleSubmit (logged fetch) st s (w, log)))) =
     log @ [addTodo_request
              [(''title'', JStr (trim (form_title st))),
               (''description'',
                  if trim (form_description st) = [] then JNull
                  else JStr (trim (form_description st))),
               (''completed'', JBool False)]]"
proof -
  let ?td = "[(''title'', JStr (trim (form_title st))),
               (''description'',
                  if trim (form_description st) = [] then JNull
                  else JStr (trim (form_description st))),
               (''completed'', JBool False)]"
  obtain s' r w' l' where
    u: "addTodo (logged fetch) ?td s (w, log) = (s', r, w', l')"
    by (cases "addTodo (logged fetch) ?td s (w, log)") auto
  with addTodo_logged [of fetch ?td s w log]
  have "l' = log @ [addTodo_request ?td]" by simp
  with u assms show ?thesis
    by (cases r) (simp_all add: handleSubmit_def Let_def)
qed

section \<open>The todo context against the item route\<close>

text \<open>
  Claim C7. Two toggles of one row that both answer 200, the second sent with the
  \<open>completed\<close> of the record the first returned: the first negates the flag, and the
  record after the second has the \<open>completed\<close>, \<open>title\<close> and \<open>description\<close> the row
  had before the first.
\<close>

theorem double_toggle_restores:
  assumes "findUnique d i = Some t0"
    and "PATCH sess1 i (req_body (toggleComplete_request i (completed t0))) now1 d = (r1, d1)"
    and "status r1 = 200"
    and "body r1 = TodoJson t1"
    and "PATCH sess2 i (req_body (toggleComplete_request i (completed t1))) now2 d1 = (r2, d2)"
    and "status r2 = 200"
  shows "completed t1 = (\<not> completed t0) \<and>
         (\<exists>t2. body r2 = TodoJson t2 \<and> findUnique d2 i = Some t2 \<and>
            completed t2 = completed t0 \<and> title t2 = title t0 \<and>
            description t2 = description t0)"
proof -
  let ?t1 = "t0\<lparr>completed := \<not> completed t0, updatedAt := now1\<rparr>"
  from PATCH_toggle_200 [OF assms(2) [unfolded toggleComplete_request_def request.simps] assms(3)]
    assms(1)
  have r1: "r1 = json_response (TodoJson ?t1) 200"
    and d1: "d1 = map (\<lambda>r. if todo_id r = i then ?t1 else r) d"
    by auto
  from r1 assms(4) have t1: "t1 = ?t1" by (simp add: json_response_def)
  have id0: "todo_id t0 = i" using findUnique_Some_id [OF assms(1)] by simp
  have f1: "findUnique d1 i = Some ?t1"
    unfolding d1 by (rule findUnique_replace [OF assms(1)]) (simp add: id0)
  let ?t2 = "?t1\<lparr>completed := \<not> completed t1, updatedAt := now2\<rparr>"
  from PATCH_toggle_200 [OF assms(5) [unfolded toggleComplete_request_def request.simps] assms(6)]
    f1
  have r2: "r2 = json_response (TodoJson ?t2) 200"
    and d2: "d2 = map (\<lambda>r. if todo_id r = i then ?t2 else r) d1"
    by auto
  have f2: "findUnique d2 i = Some ?t2"
    unfolding d2 by (rule findUnique_replace [OF f1]) (simp add: id0)
  from r2 f2 t1 show ?thesis by (simp add: json_response_def)
qed

theorem double_toggle_restores_witness:
  "PATCH (Some \<lparr>user = Some \<lparr>uid = ''alice''\<rparr>\<rparr>) ''t1'' (req_body
       (toggleComplete_request ''t1'' False)) 5 [\<lparr>todo_id = ''t1'', title =
       ''Buy milk'', description = None, completed = False, userId = ''alice'', createdAt =
       1, updatedAt = 1\<rparr>, \<lparr>todo_id = ''t2'', title = ''Walk'', description =
       None, completed = True, userId = ''bob'', createdAt = 2, updatedAt = 2\<rparr>] =
       (json_response (TodoJson \<lparr>todo_id = ''t1'', title = ''Buy milk'', description
       = None, completed = True, userId = ''alice'', createdAt = 1, updatedAt = 5\<rparr>)
       200, [\<lparr>todo_id = ''t1'', title = ''Buy milk'', description = None, completed =
       True, userId = ''alice'', createdAt = 1, updatedAt = 5\<rparr>, \<lparr>todo_id =
       ''t2'', title = ''Walk'', description = None, completed = True, userId = ''bob'',
       createdAt = 2, updatedAt = 2\<rparr>]) \<and>
   PATCH (Some \<lparr>user = Some \<lparr>uid = ''alice''\<rparr>\<rparr>) ''t1'' (req_body
       (toggleComplete_request ''t1'' True)) 6 [\<lparr>todo_id = ''t1'', title =
       ''Buy milk'', description = None, completed = True, userId = ''alice'', createdAt =
       1, updatedAt = 5\<rparr>, \<lparr>todo_id = ''t2'', title = ''Walk'', description =
       None, completed = True, userId = ''bob'', createdAt = 2, updatedAt = 2\<rparr>] =
       (json_response (TodoJson \<lparr>todo_id = ''t1'', title = ''Buy milk'', description
       = None, completed = False, userId = ''alice'', createdAt = 1, updatedAt = 6\<rparr>)
       200, [\<lparr>todo_id = ''t1'', title = ''Buy milk'', description = None, completed =
       False, userId = ''alice'', createdAt = 1, updatedAt = 6\<rparr>, \<lparr>todo_id =
       ''t2'', title = ''Walk'', description = None, completed = True, userId = ''bob'',
       createdAt = 2, updatedAt = 2\<rparr>]) \<and>
   findUnique [\<lparr>todo_id = ''t1'', title = ''Buy milk'', description = None, completed =
       False, userId = ''alice'', createdAt = 1, updatedAt = 6\<rparr>, \<lparr>todo_id =
       ''t2'', title = ''Walk'', description = None, completed = True, userId = ''bob'',
       createdAt = 2, updatedAt = 2\<rparr>] ''t1'' = Some \<lparr>todo_id = ''t1'', title =
       ''Buy milk'', description = None, completed = False, userId = ''alice'', createdAt =
       1, updatedAt = 6\<rparr> \<and>
   completed \<lparr>todo_id = ''t1'', title = ''Buy milk'', description = None, completed =
       False, userId = ''alice'', createdAt = 1, updatedAt = 6\<rparr> = completed
       \<lparr>todo_id = ''t1'', title = ''Buy milk'', description = None, completed =
       False, userId = ''alice'', createdAt = 1, updatedAt = 1\<rparr> \<and>
   title \<lparr>todo_id = ''t1'', title = ''Buy milk'', description = None, completed = False,
       userId = ''alice'', createdAt = 1, updatedAt = 6\<rparr> = title \<lparr>todo_id =
       ''t1'', title = ''Buy milk'', description = None, completed = False, userId =
       ''alice'', createdAt = 1, updatedAt = 1\<rparr>"
proof -
  have h1: "findUnique [\<lparr>todo_id = ''t1'', title = ''Buy milk'', description = None, completed =
      False, userId = ''alice'', createdAt = 1, updatedAt = 1\<rparr>, \<lparr>todo_id =
      ''t2'', title = ''Walk'', description = None, completed = True, userId = ''bob'',
      createdAt = 2, updatedAt = 2\<rparr>] ''t1'' = Some \<lparr>todo_id = ''t1'', title =
      ''Buy milk'', description = None, completed = False, userId = ''alice'', createdAt =
      1, updatedAt = 1\<rparr>"
    by (simp add: findUnique_def)
  have h2: "PATCH (Some \<lparr>user = Some \<lparr>uid = ''alice''\<rparr>\<rparr>) ''t1'' (req_body
      (toggleComplete_request ''t1'' (completed \<lparr>todo_id = ''t1'', title =
      ''Buy milk'', description = None, completed = False, userId = ''alice'', createdAt =
      1, updatedAt = 1\<rparr>))) 5 [\<lparr>todo_id = ''t1'', title = ''Buy milk'',
      description = None, completed = False, userId = ''alice'', createdAt = 1, updatedAt =
      1\<rparr>, \<lparr>todo_id = ''t2'', title = ''Walk'', description = None, completed =
      True, userId = ''bob'', createdAt = 2, updatedAt = 2\<rparr>] = (json_response
      (TodoJson \<lparr>todo_id = ''t1'', title = ''Buy milk'', description = None,
      completed = True, userId = ''alice'', createdAt = 1, updatedAt = 5\<rparr>) 200,
      [\<lparr>todo_id = ''t1'', title = ''Buy milk'', description = None, completed = True,
      userId = ''alice'', createdAt = 1, updatedAt = 5\<rparr>, \<lparr>todo_id = ''t2'',
      title = ''Walk'', description = None, completed = True, userId = ''bob'', createdAt =
      2, updatedAt = 2\<rparr>])"
    by (simp add: PATCH_def PATCH_try_def prisma_update_def stamp_updatedAt_def findUnique_def destructure_def get_prop_def
        spread_def toggleComplete_request_def json_response_def Let_def)
  have h3: "status (json_response (TodoJson \<lparr>todo_id = ''t1'', title = ''Buy milk'', description
      = None, completed = True, userId = ''alice'', createdAt = 1, updatedAt = 5\<rparr>)
      200) = 200"
    by (simp add: json_response_def)
  have h4: "body (json_response (TodoJson \<lparr>todo_id = ''t1'', title = ''Buy milk'', description =
      None, completed = True, userId = ''alice'', createdAt = 1, updatedAt = 5\<rparr>) 200)
      = TodoJson \<lparr>todo_id = ''t1'', title = ''Buy milk'', description = None,
      completed = True, userId = ''alice'', createdAt = 1, updatedAt = 5\<rparr>"
    by (simp add: json_response_def)
  have h5: "PATCH (Some \<lparr>user = Some \<lparr>uid = ''alice''\<rparr>\<rparr>) ''t1'' (req_body
      (toggleComplete_request ''t1'' (completed \<lparr>todo_id = ''t1'', title =
      ''Buy milk'', description = None, completed = True, userId = ''alice'', createdAt = 1,
      updatedAt = 5\<rparr>))) 6 [\<lparr>todo_id = ''t1'', title = ''Buy milk'',
      description = None, completed = True, userId = ''alice'', createdAt = 1, updatedAt =
      5\<rparr>, \<lparr>todo_id = ''t2'', title = ''Walk'', description = None, completed =
      True, userId = ''bob'', createdAt = 2, updatedAt = 2\<rparr>] = (json_response
      (TodoJson \<lparr>todo_id = ''t1'', title = ''Buy milk'', description = None,
      completed = False, userId = ''alice'', createdAt = 1, updatedAt = 6\<rparr>) 200,
      [\<lparr>todo_id = ''t1'', title = ''Buy milk'', description = None, completed =
      False, userId = ''alice'', createdAt = 1, updatedAt = 6\<rparr>, \<lparr>todo_id =
      ''t2'', title = ''Walk'', description = None, completed = True, userId = ''bob'',
      createdAt = 2, updatedAt = 2\<rparr>])"
    by (simp add: PATCH_def PATCH_try_def prisma_update_def stamp_updatedAt_def findUnique_def destructure_def get_prop_def
        spread_def toggleComplete_request_def json_response_def Let_def)
  have h6: "status (json_response (TodoJson \<lparr>todo_id = ''t1'', title = ''Buy milk'', description
      = None, completed = False, userId = ''alice'', createdAt = 1, updatedAt = 6\<rparr>)
      200) = 200"
    by (simp add: json_response_def)
  from double_toggle_restores [OF h1 h2 h3 h4 h5 h6] show ?thesis
    by (simp add: PATCH_def PATCH_try_def prisma_update_def stamp_updatedAt_def findUnique_def destructure_def get_prop_def
        spread_def toggleComplete_request_def json_response_def Let_def)
qed

text \<open>
  Claim C10. \<open>toggleComplete i b\<close> is \<open>updateTodo i {completed: !b}\<close>: the same result
  on every network, by the same request, a PATCH of \<^verbatim>\<open>/api/todos/i\<close> whose body has the
  one member \<open>completed\<close> set to the negation of the argument \<open>b\<close>. It is the only
  request the call makes, and the route, for the owner of the row, stores that negation
  whatever the row's \<open>completed\<close> was.
\<close>

theorem toggle_is_update_of_negation:
  fixes fetch :: "('w, todo) fetch"
  shows
  "toggleComplete fetch i b st w = updateTodo fetch i [(''completed'', JBool (\<not> b))] st w \<and>
   toggleComplete_request i b = updateTodo_request i [(''completed'', JBool (\<not> b))] \<and>
   req_method (toggleComplete_request i b) = ''PATCH'' \<and>
   req_url (toggleComplete_request i b) = ''/api/todos/'' @ i \<and>
   req_body (toggleComplete_request i b) = Some (Object [(''completed'', JBool (\<not> b))]) \<and>
   snd (snd (snd (toggleComplete (logged fetch) i b st (w, log)))) =
     log @ [toggleComplete_request i b] \<and>
   (user s = Some u \<and> findUnique d i = Some t \<and> userId t = uid u \<longrightarrow>
      PATCH (Some s) i (req_body (toggleComplete_request i b)) now d =
        (json_response (TodoJson (t\<lparr>completed := \<not> b, updatedAt := now\<rparr>)) 200,
         map (\<lambda>r. if todo_id r = i then t\<lparr>completed := \<not> b, updatedAt := now\<rparr> else r) d))"
proof (intro conjI impI)
  show "toggleComplete fetch i b st w =
      updateTodo fetch i [(''completed'', JBool (\<not> b))] st w"
    by (simp add: toggleComplete_def updateTodo_def toggleComplete_request_def
        updateTodo_request_def)
  show "snd (snd (snd (toggleComplete (logged fetch) i b st (w, log)))) =
      log @ [toggleComplete_request i b]"
    by (simp add: toggleComplete_def logged_def split: prod.splits sum.splits)
next
  assume "user s = Some u \<and> findUnique d i = Some t \<and> userId t = uid u"
  then show "PATCH (Some s) i (req_body (toggleComplete_request i b)) now d =
        (json_response (TodoJson (t\<lparr>completed := \<not> b, updatedAt := now\<rparr>)) 200,
         map (\<lambda>r. if todo_id r = i then t\<lparr>completed := \<not> b, updatedAt := now\<rparr> else r) d)"
    by (simp add: toggleComplete_request_def PATCH_toggle)
qed (simp_all add: toggleComplete_request_def updateTodo_request_def)

theorem toggle_is_update_of_negation_witness:
  "user \<lparr>user = Some \<lparr>uid = ''alice''\<rparr>\<rparr> = Some \<lparr>uid =
       ''alice''\<rparr> \<and>
   findUnique [\<lparr>todo_id = ''t2'', title = ''Walk'', description = None, completed =
       True, userId = ''alice'', createdAt = 2, updatedAt = 2\<rparr>] ''t2'' = Some
       \<lparr>todo_id = ''t2'', title = ''Walk'', description = None, completed = True,
       userId = ''alice'', createdAt = 2, updatedAt = 2\<rparr> \<and>
   userId \<lparr>todo_id = ''t2'', title = ''Walk'', description = None, completed = True,
       userId = ''alice'', createdAt = 2, updatedAt = 2\<rparr> = uid \<lparr>uid =
       ''alice''\<rparr> \<and>
   PATCH (Some \<lparr>user = Some \<lparr>uid = ''alice''\<rparr>\<rparr>) ''t2'' (req_body
       (toggleComplete_request ''t2'' False)) 7 [\<lparr>todo_id = ''t2'', title = ''Walk'',
       description = None, completed = True, userId = ''alice'', createdAt = 2, updatedAt =
       2\<rparr>] = (json_response (TodoJson \<lparr>todo_id = ''t2'', title = ''Walk'',
       description = None, completed = True, userId = ''alice'', createdAt = 2, updatedAt =
       7\<rparr>) 200, [\<lparr>todo_id = ''t2'', title = ''Walk'', description = None,
       completed = True, userId = ''alice'', createdAt = 2, updatedAt = 7\<rparr>]) \<and>
   snd (snd (snd (toggleComplete (logged ((\<lambda>req w. (Inr \<lparr>ok = True, json = Inr
       \<lparr>todo_id = ''t2'', title = ''Walk'', description = None, completed = True,
       userId = ''alice'', createdAt = 2, updatedAt = 7\<rparr>\<rparr>, w)) :: (unit, todo)
       fetch)) ''t2'' False \<lparr>todos = [\<lparr>todo_id = ''t2'', title = ''Walk'',
       description = None, completed = True, userId = ''alice'', createdAt = 2, updatedAt =
       2\<rparr>], loading = False, error = None\<rparr> ((), [])))) =
       [toggleComplete_request ''t2'' False]"
  using toggle_is_update_of_negation
    [where fetch = "(\<lambda>req w. (Inr \<lparr>ok = True, json = Inr \<lparr>todo_id = ''t2'', title
      = ''Walk'', description = None, completed = True, userId = ''alice'', createdAt = 2,
      updatedAt = 7\<rparr>\<rparr>, w)) :: (unit, todo) fetch" and i = "''t2''" and b =
      False and st = "\<lparr>todos = [\<lparr>todo_id = ''t2'', title = ''Walk'',
      description = None, completed = True, userId = ''alice'', createdAt = 2, updatedAt =
      2\<rparr>], loading = False, error = None\<rparr>" and w = "()" and log = "[]" and s =
      "\<lparr>user = Some \<lparr>uid = ''alice''\<rparr>\<rparr>" and u = "\<lparr>uid =
      ''alice''\<rparr>" and d = "[\<lparr>todo_id = ''t2'', title = ''Walk'', description =
      None, completed = True, userId = ''alice'', createdAt = 2, updatedAt = 2\<rparr>]" and
      t = "\<lparr>todo_id = ''t2'', title = ''Walk'', description = None, completed = True,
      userId = ''alice'', createdAt = 2, updatedAt = 2\<rparr>" and now = 7]
  by (simp add: toggleComplete_def updateTodo_def toggleComplete_request_def
      updateTodo_request_def logged_def ok_json_def PATCH_def PATCH_try_def prisma_update_def stamp_updatedAt_def
      findUnique_def destructure_def get_prop_def spread_def json_response_def Let_def)

end
